theory Spec2Isabelle
  imports Complex_Main "HOL-Library.Word" "HOL-Library.AList"
begin

section \<open>The whisper JNI bindings of expo-whisper\<close>

text \<open>
  The repository holds two JNI bindings of the whisper.cpp engine:
  \<^item> \<^verbatim>\<open>cpp/whisper-jni.cpp\<close>, the JSON binding
    (\<^verbatim>\<open>initContext\<close>, \<^verbatim>\<open>freeContext\<close>, \<^verbatim>\<open>fullTranscribe\<close>), which takes WAV
    bytes and returns a JSON text;
  \<^item> \<^verbatim>\<open>jni/whisper_jni.cpp\<close>, the structured binding (\<^verbatim>\<open>nativeInitContext\<close>,
    \<^verbatim>\<open>nativeFreeContext\<close>, \<^verbatim>\<open>nativeTranscribe\<close>,
    \<^verbatim>\<open>nativeDetectLanguageWithState\<close>,
    \<^verbatim>\<open>nativeStartChunkedRealtimeTranscribeWithState\<close>), which takes float samples
    and returns Java objects.
  The engine itself (\<^verbatim>\<open>whisper.h\<close>) is not part of the repository: it is a
  parameter of the model, a record of the answers its functions give.
\<close>

subsection \<open>JNI values\<close>

text \<open>
  \<^verbatim>\<open>jlong\<close> carries the context pointer, \<^verbatim>\<open>jbyte\<close> is one byte of the audio array.
  \<^verbatim>\<open>jint\<close>, \<^verbatim>\<open>jsize\<close> and \<^verbatim>\<open>int64_t\<close> values are only compared, copied and printed
  by the bindings (the one subtraction, \<^verbatim>\<open>len - 44\<close>, is guarded by \<^verbatim>\<open>len >= 44\<close>), so
  they are integers here. A \<^verbatim>\<open>float\<close> sample is a real number: the only float
  arithmetic of the bindings, an \<^verbatim>\<open>int16_t\<close> converted and divided by \<open>2 ^ 15\<close>, is
  exact in single precision.
\<close>

type_synonym jlong = "64 word"
type_synonym jbyte = "8 word"
type_synonym jint = int
type_synonym jfloat = real

subsection \<open>WAV decoding in \<^verbatim>\<open>fullTranscribe\<close>\<close>

text \<open>
  \<^verbatim>\<open>const int16_t *pcm16 = (const int16_t *)(bytes + 44); ... pcm16[i]\<close>: the two bytes at
  offsets \<open>44 + 2 i\<close> and \<open>44 + 2 i + 1\<close>, read as one 16-bit value on a little-endian
  target (every Android ABI), the second byte being the high one.
\<close>

definition pcm16 :: "jbyte list \<Rightarrow> nat \<Rightarrow> 16 word" where
  "pcm16 bytes i = word_cat (bytes ! (44 + 2 * i + 1)) (bytes ! (44 + 2 * i))"

text \<open>\<^verbatim>\<open>(float)pcm16[i] / 32768.0f\<close>; the conversion reads the value as signed.\<close>

definition pcm_sample :: "jbyte list \<Rightarrow> nat \<Rightarrow> jfloat" where
  "pcm_sample bytes i = real_of_int (sint (pcm16 bytes i)) / 32768"

text \<open>\<^verbatim>\<open>for (int i = 0; i < pcmLen; i++) samples[i] = ...\<close> over the vector \<open>samples\<close>.\<close>

function pcm_loop :: "jbyte list \<Rightarrow> nat \<Rightarrow> nat \<Rightarrow> jfloat list \<Rightarrow> jfloat list" where
  "pcm_loop bytes i pcmLen samples =
     (if i < pcmLen then pcm_loop bytes (i + 1) pcmLen (samples[i := pcm_sample bytes i])
      else samples)"
  by pat_completeness auto
termination
  by (relation "measure (\<lambda>(bytes, i, pcmLen, samples). pcmLen - i)") auto

declare pcm_loop.simps [simp del]

text \<open>
  Lines 70 to 76, reached with \<open>44 \<le> len\<close> only: \<^verbatim>\<open>int pcmLen = (len - 44) / 2;
  std::vector<float> samples(pcmLen);\<close> and the loop.
\<close>

definition wav_samples :: "jbyte list \<Rightarrow> jfloat list" where
  "wav_samples bytes =
     (let len = int (length bytes);
          pcmLen = (len - 44) div 2
      in pcm_loop bytes 0 (nat pcmLen) (replicate (nat pcmLen) 0))"


subsection \<open>The engine\<close>

text \<open>
  \<^verbatim>\<open>whisper_full_params\<close> is declared in \<^verbatim>\<open>whisper.h\<close>; the record has the fields the
  bindings assign. \<^verbatim>\<open>language\<close> is a \<^verbatim>\<open>const char *\<close>: it points to a string, except
  in \<^verbatim>\<open>fullTranscribe\<close>, which stores in it the integer that \<^verbatim>\<open>whisper_lang_id\<close>
  returns: a pointer whose address is that integer, and which points to no string.
\<close>

datatype lang_ptr = Lang_str string | Lang_int int

fun points_to_string :: "lang_ptr \<Rightarrow> bool" where
  "points_to_string (Lang_str s) = True"
| "points_to_string (Lang_int i) = False"

record whisper_full_params =
  print_realtime :: bool
  print_progress :: bool
  print_timestamps :: bool
  print_special :: bool
  translate :: bool
  n_threads :: int
  single_segment :: bool
  no_context :: bool
  audio_ctx :: int
  token_timestamps :: bool
  max_tokens :: int
  suppress_blank :: bool
  suppress_nst :: bool
  language :: lang_ptr

text \<open>One segment as the engine reports it: its text and its two timestamps.\<close>

record segment =
  seg_text :: string
  seg_t0 :: int
  seg_t1 :: int

text \<open>
  The engine is a parameter: the default parameters it hands out, its language table
  (\<^verbatim>\<open>whisper_lang_id\<close> gives \<open>-1\<close> and \<^verbatim>\<open>whisper_lang_str\<close> a null pointer for an
  unknown language), the status and the segments of a \<^verbatim>\<open>whisper_full\<close> run, whether
  \<^verbatim>\<open>whisper_init_state\<close> can allocate its \<open>n\<close>-th state, the status of the
  spectrogram conversion and the language id that detection answers for the audio held
  by a state.
\<close>

record engine =
  default_params :: whisper_full_params
  lang_id_of :: "string \<Rightarrow> int"
  lang_str_of :: "int \<Rightarrow> string option"
  lang_str_full_of :: "int \<Rightarrow> string option"
  full_status :: "jlong \<Rightarrow> whisper_full_params \<Rightarrow> jfloat list \<Rightarrow> int"
  full_segments :: "jlong \<Rightarrow> whisper_full_params \<Rightarrow> jfloat list \<Rightarrow> segment list"
  state_alloc_ok :: "jlong \<Rightarrow> nat \<Rightarrow> bool"
  pcm_to_mel_status :: "jlong \<Rightarrow> jfloat list \<Rightarrow> int"
  auto_detect_id :: "jlong \<Rightarrow> jfloat list \<Rightarrow> int \<Rightarrow> int"

text \<open>The calls that reach the engine, in order.\<close>

datatype engine_call =
    Whisper_free jlong
  | Whisper_full jlong whisper_full_params "jfloat list"
  | Whisper_lang_id string
  | Whisper_init_state jlong
  | Whisper_state_free nat
  | Whisper_pcm_to_mel_with_state jlong nat "jfloat list"
  | Whisper_lang_auto_detect_with_state jlong nat int

text \<open>
  The native memory behind the handles: the contexts that are allocated and not yet
  released, the segments each context holds since its last run, and the states, numbered
  in the order of their allocation: the audio a state holds, or \<open>None\<close> once it is
  released. A state is held while it is allocated and not released.
\<close>

record world =
  live_ctx :: "jlong set"
  ctx_segments :: "jlong \<Rightarrow> segment list"
  states :: "jfloat list option list"
  calls :: "engine_call list"

definition state_held :: "world \<Rightarrow> nat \<Rightarrow> bool" where
  "state_held w state = (state < length (states w) \<and> states w ! state \<noteq> None)"

definition states_held :: "world \<Rightarrow> nat set" where
  "states_held w = set (filter (state_held w) [0..<length (states w)])"

definition state_audio :: "world \<Rightarrow> nat \<Rightarrow> jfloat list" where
  "state_audio w state = (case states w ! state of Some audio \<Rightarrow> audio | None \<Rightarrow> [])"

text \<open>
  The engine reads and releases the memory it is given. Handing it a context or a state
  that is not allocated (released before, or never allocated) is undefined behaviour of
  the C++ program: the call has no result, only a fault. So is a run whose language
  pointer points to no string: the run reads the language through the pointer, and
  nothing in the bindings says that the engine tests it first.
\<close>

datatype fault = Dangling_context | Dangling_state | Wild_language_pointer

definition whisper_free :: "world \<Rightarrow> jlong \<Rightarrow> fault + world" where
  "whisper_free w ctx =
     (if ctx \<in> live_ctx w
      then Inr (w\<lparr>live_ctx := live_ctx w - {ctx}, calls := calls w @ [Whisper_free ctx]\<rparr>)
      else Inl Dangling_context)"

definition whisper_full ::
  "engine \<Rightarrow> world \<Rightarrow> jlong \<Rightarrow> whisper_full_params \<Rightarrow> jfloat list \<Rightarrow> fault + (int \<times> world)" where
  "whisper_full E w ctx params samples =
     (if ctx \<notin> live_ctx w then Inl Dangling_context
      else if \<not> points_to_string (language params) then Inl Wild_language_pointer
      else Inr (full_status E ctx params samples,
                w\<lparr>ctx_segments := (ctx_segments w)(ctx := full_segments E ctx params samples),
                  calls := calls w @ [Whisper_full ctx params samples]\<rparr>))"

text \<open>
  The accessors of the segments, called by the bindings only after \<^verbatim>\<open>whisper_full\<close> has
  returned on the same context, with \<open>0 \<le> i < n_segments\<close>.
\<close>

definition whisper_full_n_segments :: "world \<Rightarrow> jlong \<Rightarrow> int" where
  "whisper_full_n_segments w ctx = int (length (ctx_segments w ctx))"

definition whisper_full_get_segment_text :: "world \<Rightarrow> jlong \<Rightarrow> int \<Rightarrow> string" where
  "whisper_full_get_segment_text w ctx i = seg_text (ctx_segments w ctx ! nat i)"

definition whisper_full_get_segment_t0 :: "world \<Rightarrow> jlong \<Rightarrow> int \<Rightarrow> int" where
  "whisper_full_get_segment_t0 w ctx i = seg_t0 (ctx_segments w ctx ! nat i)"

definition whisper_full_get_segment_t1 :: "world \<Rightarrow> jlong \<Rightarrow> int \<Rightarrow> int" where
  "whisper_full_get_segment_t1 w ctx i = seg_t1 (ctx_segments w ctx ! nat i)"

definition whisper_lang_id :: "engine \<Rightarrow> world \<Rightarrow> string \<Rightarrow> int \<times> world" where
  "whisper_lang_id E w lang = (lang_id_of E lang, w\<lparr>calls := calls w @ [Whisper_lang_id lang]\<rparr>)"

text \<open>\<^verbatim>\<open>whisper_init_state\<close>: a new state, or the null pointer (\<open>None\<close>).\<close>

definition whisper_init_state :: "engine \<Rightarrow> world \<Rightarrow> jlong \<Rightarrow> fault + (nat option \<times> world)" where
  "whisper_init_state E w ctx =
     (if ctx \<notin> live_ctx w then Inl Dangling_context
      else if state_alloc_ok E ctx (length (states w))
      then Inr (Some (length (states w)),
                w\<lparr>states := states w @ [Some []],
                  calls := calls w @ [Whisper_init_state ctx]\<rparr>)
      else Inr (None, w\<lparr>calls := calls w @ [Whisper_init_state ctx]\<rparr>))"

definition whisper_state_free :: "world \<Rightarrow> nat \<Rightarrow> fault + world" where
  "whisper_state_free w state =
     (if state_held w state
      then Inr (w\<lparr>states := (states w)[state := None],
                  calls := calls w @ [Whisper_state_free state]\<rparr>)
      else Inl Dangling_state)"

definition whisper_pcm_to_mel_with_state ::
  "engine \<Rightarrow> world \<Rightarrow> jlong \<Rightarrow> nat \<Rightarrow> jfloat list \<Rightarrow> fault + (int \<times> world)" where
  "whisper_pcm_to_mel_with_state E w ctx state samples =
     (if ctx \<notin> live_ctx w then Inl Dangling_context
      else if \<not> state_held w state then Inl Dangling_state
      else Inr (pcm_to_mel_status E ctx samples,
                w\<lparr>states := (states w)[state := Some samples],
                  calls := calls w @ [Whisper_pcm_to_mel_with_state ctx state samples]\<rparr>))"

definition whisper_lang_auto_detect_with_state ::
  "engine \<Rightarrow> world \<Rightarrow> jlong \<Rightarrow> nat \<Rightarrow> int \<Rightarrow> fault + (int \<times> world)" where
  "whisper_lang_auto_detect_with_state E w ctx state n =
     (if ctx \<notin> live_ctx w then Inl Dangling_context
      else if \<not> state_held w state then Inl Dangling_state
      else Inr (auto_detect_id E ctx (state_audio w state) n,
                w\<lparr>calls := calls w @ [Whisper_lang_auto_detect_with_state ctx state n]\<rparr>))"

subsection \<open>The JSON binding: \<^verbatim>\<open>cpp/whisper-jni.cpp\<close>\<close>

text \<open>\<^verbatim>\<open>freeContext\<close>: \<^verbatim>\<open>if (ctx) { whisper_free(ctx); }\<close>\<close>

definition freeContext :: "world \<Rightarrow> jlong \<Rightarrow> fault + world" where
  "freeContext w contextPtr = (if contextPtr \<noteq> 0 then whisper_free w contextPtr else Inr w)"

text \<open>\<^verbatim>\<open>json << t0\<close> prints an \<^verbatim>\<open>int64_t\<close> in decimal, with a sign when negative.\<close>

fun show_nat :: "nat \<Rightarrow> string" where
  "show_nat n =
     (if n < 10 then [''0123456789'' ! n]
      else show_nat (n div 10) @ [''0123456789'' ! (n mod 10)])"

declare show_nat.simps [simp del]

definition show_int :: "int \<Rightarrow> string" where
  "show_int i = (if i < 0 then CHR ''-'' # show_nat (nat (- i)) else show_nat (nat i))"

text \<open>
  Lines 80 to 97: the parameters of the run. The language is a \<^verbatim>\<open>jstring\<close> handed to
  \<^verbatim>\<open>GetStringUTFChars\<close> with no null check, so it is a string here.
\<close>

definition fullTranscribe_params ::
  "engine \<Rightarrow> world \<Rightarrow> string \<Rightarrow> bool \<Rightarrow> jint \<Rightarrow> bool \<Rightarrow> bool \<Rightarrow> whisper_full_params \<times> world" where
  "fullTranscribe_params E w languageStr translate' maxTokens suppressBlank suppressNst =
     (let params = default_params E;
          params = params\<lparr>print_progress := False, print_realtime := False,
                          suppress_blank := suppressBlank, suppress_nst := suppressNst\<rparr>;
          params = (if maxTokens > 0 then params\<lparr>max_tokens := maxTokens\<rparr> else params);
          params = (if translate' then params\<lparr>translate := True\<rparr> else params)
      in if languageStr \<noteq> ''auto''
         then (let (id, w') = whisper_lang_id E w languageStr
               in (params\<lparr>language := Lang_int id\<rparr>, w'))
         else (params, w))"

text \<open>Lines 110 to 114: the texts of the segments, appended in index order.\<close>

function text_loop :: "world \<Rightarrow> jlong \<Rightarrow> int \<Rightarrow> int \<Rightarrow> string \<Rightarrow> string" where
  "text_loop w ctx i n_segments json =
     (if i < n_segments
      then text_loop w ctx (i + 1) n_segments (json @ whisper_full_get_segment_text w ctx i)
      else json)"
  by pat_completeness auto
termination
  by (relation "measure (\<lambda>(w, ctx, i, n_segments, json). nat (n_segments - i))") auto

declare text_loop.simps [simp del]

text \<open>Lines 117 to 127: one JSON object per segment, separated by commas.\<close>

function segments_loop :: "world \<Rightarrow> jlong \<Rightarrow> int \<Rightarrow> int \<Rightarrow> string \<Rightarrow> string" where
  \<open>segments_loop w ctx i n_segments json =
     (if i < n_segments
      then (let text' = whisper_full_get_segment_text w ctx i;
                t0 = whisper_full_get_segment_t0 w ctx i;
                t1 = whisper_full_get_segment_t1 w ctx i;
                json = json @ (if i > 0 then '','' else '''') @ ''{'';
                json = json @ ''"text": "'' @ text' @ ''",'';
                json = json @ ''"t0": '' @ show_int t0 @ '','';
                json = json @ ''"t1": '' @ show_int t1;
                json = json @ ''}''
            in segments_loop w ctx (i + 1) n_segments json)
      else json)\<close>
  by pat_completeness auto
termination
  by (relation "measure (\<lambda>(w, ctx, i, n_segments, json). nat (n_segments - i))") auto

declare segments_loop.simps [simp del]

text \<open>Lines 106 to 131: the JSON text of a successful run.\<close>

definition fullTranscribe_json :: "world \<Rightarrow> jlong \<Rightarrow> string" where
  \<open>fullTranscribe_json w ctx =
     (let json = ''{'';
          json = json @ ''"text": "'';
          n_segments = whisper_full_n_segments w ctx;
          json = text_loop w ctx 0 n_segments json;
          json = json @ ''", "segments": ['';
          json = segments_loop w ctx 0 n_segments json;
          json = json @ '']}''
      in json)\<close>

definition fullTranscribe ::
  "engine \<Rightarrow> world \<Rightarrow> jlong \<Rightarrow> jbyte list \<Rightarrow> string \<Rightarrow> bool \<Rightarrow> jint \<Rightarrow> bool \<Rightarrow> bool
     \<Rightarrow> fault + (string \<times> world)" where
  \<open>fullTranscribe E w contextPtr audioData languageStr translate' maxTokens suppressBlank suppressNst =
     (if contextPtr = 0 then Inr (''{}'', w)
      else let len = int (length audioData)
      in if len < 44 then Inr (''{"error":"Invalid WAV"}'', w)
      else let samples = wav_samples audioData;
               (params, w1) = fullTranscribe_params E w languageStr translate' maxTokens
                                suppressBlank suppressNst
      in case whisper_full E w1 contextPtr params samples of
           Inl f \<Rightarrow> Inl f
         | Inr (status, w2) \<Rightarrow>
             if status \<noteq> 0 then Inr (''{"error":"Transformation failed"}'', w2)
             else Inr (fullTranscribe_json w2 contextPtr, w2))\<close>

subsection \<open>The structured binding: \<^verbatim>\<open>jni/whisper_jni.cpp\<close>\<close>

text \<open>
  The Java objects the binding builds: strings, boxed numbers, an \<^verbatim>\<open>ArrayList\<close> and a
  \<^verbatim>\<open>HashMap\<close> with string keys, where \<^verbatim>\<open>put\<close> replaces the value of a key already
  present. A null reference is \<open>None\<close>.
\<close>

datatype jobject =
    JString string
  | JLong int
  | JDouble real
  | JArrayList "jobject list"
  | JHashMap "(string \<times> jobject) list"

definition hashMapPut :: "(string \<times> jobject) list \<Rightarrow> string \<Rightarrow> jobject \<Rightarrow> (string \<times> jobject) list" where
  "hashMapPut m k v = AList.update k v m"

text \<open>\<^verbatim>\<open>nativeFreeContext\<close>: \<^verbatim>\<open>if (ctx != nullptr) { whisper_free(ctx); }\<close>\<close>

definition nativeFreeContext :: "world \<Rightarrow> jlong \<Rightarrow> fault + world" where
  "nativeFreeContext w contextPtr =
     (if contextPtr \<noteq> 0 then whisper_free w contextPtr else Inr w)"

text \<open>Lines 78 to 100 of \<^verbatim>\<open>nativeTranscribe\<close>; a null \<^verbatim>\<open>jstring\<close> is \<open>None\<close>.\<close>

definition nativeTranscribe_params ::
  "engine \<Rightarrow> string option \<Rightarrow> bool \<Rightarrow> jint \<Rightarrow> whisper_full_params" where
  "nativeTranscribe_params E language' translate' maxTokens =
     (let params = default_params E;
          params = params\<lparr>print_realtime := False, print_progress := False,
                          print_timestamps := False, print_special := False,
                          translate := translate', n_threads := 4,
                          single_segment := False, token_timestamps := True\<rparr>;
          params = (if maxTokens > 0 then params\<lparr>max_tokens := maxTokens\<rparr> else params)
      in case language' of
           Some lang \<Rightarrow> params\<lparr>language := Lang_str lang\<rparr>
         | None \<Rightarrow> params\<lparr>language := Lang_str ''auto''\<rparr>)"

text \<open>
  Lines 135 to 167: per segment, the text is appended to \<open>fullText\<close> and a map of the
  text and the two timestamps is added to \<open>segmentsList\<close>.
\<close>

function collect_loop ::
  "world \<Rightarrow> jlong \<Rightarrow> int \<Rightarrow> int \<Rightarrow> string \<times> jobject list \<Rightarrow> string \<times> jobject list" where
  "collect_loop w ctx i nSegments (fullText, segmentsList) =
     (if i < nSegments
      then (let text' = whisper_full_get_segment_text w ctx i;
                t0 = whisper_full_get_segment_t0 w ctx i;
                t1 = whisper_full_get_segment_t1 w ctx i;
                fullText = fullText @ text';
                segmentMap = [];
                segmentMap = hashMapPut segmentMap ''text'' (JString text');
                segmentMap = hashMapPut segmentMap ''t0'' (JLong t0);
                segmentMap = hashMapPut segmentMap ''t1'' (JLong t1);
                segmentsList = segmentsList @ [JHashMap segmentMap]
            in collect_loop w ctx (i + 1) nSegments (fullText, segmentsList))
      else (fullText, segmentsList))"
  by pat_completeness auto
termination
  by (relation "measure (\<lambda>(w, ctx, i, nSegments, acc). nat (nSegments - i))") auto

declare collect_loop.simps [simp del]

text \<open>Lines 113 to 186: the result map of a successful run.\<close>

definition nativeTranscribe_result :: "world \<Rightarrow> jlong \<Rightarrow> jobject" where
  "nativeTranscribe_result w ctx =
     (let nSegments = whisper_full_n_segments w ctx;
          (fullText, segmentsList) = collect_loop w ctx 0 nSegments ([], []);
          resultMap = [];
          resultMap = hashMapPut resultMap ''result'' (JString fullText);
          resultMap = hashMapPut resultMap ''segments'' (JArrayList segmentsList)
      in JHashMap resultMap)"

definition nativeTranscribe ::
  "engine \<Rightarrow> world \<Rightarrow> jlong \<Rightarrow> jfloat list \<Rightarrow> string option \<Rightarrow> bool \<Rightarrow> jint
     \<Rightarrow> fault + (jobject option \<times> world)" where
  "nativeTranscribe E w contextPtr audioData language' translate' maxTokens =
     (if contextPtr = 0 then Inr (None, w)
      else let samples = audioData;
               params = nativeTranscribe_params E language' translate' maxTokens
      in case whisper_full E w contextPtr params samples of
           Inl f \<Rightarrow> Inl f
         | Inr (result, w1) \<Rightarrow>
             if result \<noteq> 0 then Inr (None, w1)
             else Inr (Some (nativeTranscribe_result w1 contextPtr), w1))"

text \<open>
  \<^verbatim>\<open>nativeDetectLanguageWithState\<close>. \<^verbatim>\<open>float confidence = 0.9f\<close> is the single-precision
  number nearest to \<open>0.9\<close>, widened to a double.
\<close>

definition confidence :: real where
  "confidence = 15099494 / 16777216"

definition nativeDetectLanguageWithState ::
  "engine \<Rightarrow> world \<Rightarrow> jlong \<Rightarrow> jfloat list \<Rightarrow> jint \<Rightarrow> fault + (jobject option \<times> world)" where
  "nativeDetectLanguageWithState E w contextPtr audioData nThreads =
     (if contextPtr = 0 then Inr (None, w)
      else case whisper_init_state E w contextPtr of
        Inl f \<Rightarrow> Inl f
      | Inr (None, w1) \<Rightarrow> Inr (None, w1)
      | Inr (Some state, w1) \<Rightarrow>
     (case whisper_pcm_to_mel_with_state E w1 contextPtr state audioData of
        Inl f \<Rightarrow> Inl f
      | Inr (res, w2) \<Rightarrow>
     if res \<noteq> 0
     then (case whisper_state_free w2 state of Inl f \<Rightarrow> Inl f | Inr w3 \<Rightarrow> Inr (None, w3))
     else
     (case whisper_lang_auto_detect_with_state E w2 contextPtr state nThreads of
        Inl f \<Rightarrow> Inl f
      | Inr (language_id, w3) \<Rightarrow>
     if language_id < 0
     then (case whisper_state_free w3 state of Inl f \<Rightarrow> Inl f | Inr w4 \<Rightarrow> Inr (None, w4))
     else
     (case lang_str_of E language_id of
        None \<Rightarrow>
          (case whisper_state_free w3 state of Inl f \<Rightarrow> Inl f | Inr w4 \<Rightarrow> Inr (None, w4))
      | Some langCode \<Rightarrow>
          (let langName = (case lang_str_full_of E language_id of
                             None \<Rightarrow> langCode | Some name \<Rightarrow> name);
               resultMap = [];
               resultMap = hashMapPut resultMap ''language'' (JString langCode);
               resultMap = hashMapPut resultMap ''confidence'' (JDouble confidence);
               resultMap = hashMapPut resultMap ''languageName'' (JString langName)
           in case whisper_state_free w3 state of
                Inl f \<Rightarrow> Inl f
              | Inr w4 \<Rightarrow> Inr (Some (JHashMap resultMap), w4))))))"

text \<open>
  \<^verbatim>\<open>nativeStartChunkedRealtimeTranscribeWithState\<close>, lines 333 to 356: the parameters
  it configures. They are a local variable that no engine call receives.
\<close>

definition nativeStartChunkedRealtimeTranscribeWithState_params ::
  "engine \<Rightarrow> string option \<Rightarrow> bool \<Rightarrow> jint \<Rightarrow> jint \<Rightarrow> bool \<Rightarrow> bool \<Rightarrow> jint
     \<Rightarrow> whisper_full_params" where
  "nativeStartChunkedRealtimeTranscribeWithState_params E language' translate' maxTokens
       audioContext singleSegment noContext nThreads =
     (let params = default_params E;
          params = params\<lparr>print_realtime := False, print_progress := False,
                          print_timestamps := False, print_special := False,
                          translate := translate', n_threads := nThreads,
                          single_segment := singleSegment, no_context := noContext,
                          audio_ctx := audioContext, token_timestamps := True\<rparr>;
          params = (if maxTokens > 0 then params\<lparr>max_tokens := maxTokens\<rparr> else params)
      in case language' of
           Some lang \<Rightarrow> params\<lparr>language := Lang_str lang\<rparr>
         | None \<Rightarrow> params\<lparr>language := Lang_str ''auto''\<rparr>)"

definition nativeStartChunkedRealtimeTranscribeWithState ::
  "engine \<Rightarrow> world \<Rightarrow> jlong \<Rightarrow> jint \<Rightarrow> string option \<Rightarrow> bool \<Rightarrow> jint \<Rightarrow> bool \<Rightarrow> jint
     \<Rightarrow> bool \<Rightarrow> bool \<Rightarrow> jint \<Rightarrow> fault + (bool \<times> world)" where
  "nativeStartChunkedRealtimeTranscribeWithState E w contextPtr samplesPerChunk language'
       translate' maxTokens useVad audioContext singleSegment noContext nThreads =
     (if contextPtr = 0 then Inr (False, w)
      else case whisper_init_state E w contextPtr of
        Inl f \<Rightarrow> Inl f
      | Inr (None, w1) \<Rightarrow> Inr (False, w1)
      | Inr (Some state, w1) \<Rightarrow>
          (let params = nativeStartChunkedRealtimeTranscribeWithState_params E language'
                          translate' maxTokens audioContext singleSegment noContext nThreads
           in case whisper_state_free w1 state of
                Inl f \<Rightarrow> Inl f
              | Inr w2 \<Rightarrow> Inr (True, w2)))"

subsection \<open>Reference notions\<close>

text \<open>
  The signed 16-bit value of two bytes in little-endian order, by arithmetic: the low
  byte first, the sum read as two's complement.
\<close>

definition le_int16 :: "jbyte \<Rightarrow> jbyte \<Rightarrow> int" where
  "le_int16 lo hi =
     (let v = uint lo + 256 * uint hi in if v < 32768 then v else v - 65536)"

text \<open>Texts joined by commas, and the renderings of one segment in the two bindings.\<close>

fun join_commas :: "string list \<Rightarrow> string" where
  "join_commas [] = []"
| "join_commas (x # xs) = x @ concat (map (\<lambda>s. '','' @ s) xs)"

definition segment_json :: "segment \<Rightarrow> string" where
  \<open>segment_json s =
     ''{"text": "'' @ seg_text s @ ''","t0": '' @ show_int (seg_t0 s) @
     '',"t1": '' @ show_int (seg_t1 s) @ ''}''\<close>

definition segment_map :: "segment \<Rightarrow> jobject" where
  "segment_map s =
     JHashMap [(''text'', JString (seg_text s)), (''t0'', JLong (seg_t0 s)),
               (''t1'', JLong (seg_t1 s))]"

text \<open>What a call returned, if it returned, and the world it left.\<close>

definition returned :: "fault + ('a \<times> world) \<Rightarrow> 'a option" where
  "returned x = (case x of Inl f \<Rightarrow> None | Inr (r, w) \<Rightarrow> Some r)"

definition calls_after :: "fault + ('a \<times> world) \<Rightarrow> engine_call list" where
  "calls_after x = (case x of Inl f \<Rightarrow> [] | Inr (r, w) \<Rightarrow> calls w)"

subsection \<open>A sample engine and a sample world\<close>

text \<open>
  An engine that knows one language, accepts every run and reports three segments, the
  second with an empty text; and a world with one context, at address 1.
\<close>

definition sample_params :: whisper_full_params where
  "sample_params =
     \<lparr>print_realtime = True, print_progress = True, print_timestamps = True,
      print_special = False, translate = False, n_threads = 2, single_segment = False,
      no_context = True, audio_ctx = 0, token_timestamps = False, max_tokens = 0,
      suppress_blank = True, suppress_nst = False, language = Lang_str ''en''\<rparr>"

definition sample_segments :: "segment list" where
  "sample_segments =
     [\<lparr>seg_text = ''Hello'', seg_t0 = 0, seg_t1 = 150\<rparr>,
      \<lparr>seg_text = '''', seg_t0 = 150, seg_t1 = 150\<rparr>,
      \<lparr>seg_text = '' world'', seg_t0 = 150, seg_t1 = 300\<rparr>]"

definition sample_engine :: engine where
  "sample_engine =
     \<lparr>default_params = sample_params,
      lang_id_of = (\<lambda>s. if s = ''en'' then 0 else - 1),
      lang_str_of = (\<lambda>i. if i = 0 then Some ''en'' else None),
      lang_str_full_of = (\<lambda>i. if i = 0 then Some ''english'' else None),
      full_status = (\<lambda>ctx params samples. 0),
      full_segments = (\<lambda>ctx params samples. sample_segments),
      state_alloc_ok = (\<lambda>ctx n. True),
      pcm_to_mel_status = (\<lambda>ctx samples. 0),
      auto_detect_id = (\<lambda>ctx audio n. 0)\<rparr>"

text \<open>
  The string that starts a JSON text, read up to its closing quote: a backslash takes
  the next character with it.
\<close>

fun json_string_body :: "string \<Rightarrow> string" where
  "json_string_body [] = []"
| "json_string_body [c] = (if c = CHR 0x22 then [] else [c])"
| "json_string_body (c # d # cs) =
     (if c = CHR 0x22 then []
      else if c = CHR 0x5C then c # d # json_string_body cs
      else c # json_string_body (d # cs))"

text \<open>The same engine, except that it reports one segment, with a quoted word in it.\<close>

definition quoting_engine :: engine where
  \<open>quoting_engine =
     sample_engine\<lparr>full_segments := (\<lambda>ctx params samples.
       [\<lparr>seg_text = ''say "hi"'', seg_t0 = 0, seg_t1 = 100\<rparr>])\<rparr>\<close>

text \<open>The same engine, except that every run fails with status 1.\<close>

definition failing_engine :: engine where
  "failing_engine = sample_engine\<lparr>full_status := (\<lambda>ctx params samples. 1)\<rparr>"

definition sample_world :: world where
  "sample_world =
     \<lparr>live_ctx = {1}, ctx_segments = (\<lambda>ctx. []), states = [], calls = []\<rparr>"

text \<open>The sample world after \<^verbatim>\<open>freeContext\<close> on its context.\<close>

definition released_world :: world where
  "released_world =
     \<lparr>live_ctx = {}, ctx_segments = (\<lambda>ctx. []), states = [], calls = [Whisper_free 1]\<rparr>"

text \<open>A 44-byte header followed by the two bytes \<open>00 80\<close>, and one with a byte more.\<close>

definition wav46 :: "jbyte list" where
  "wav46 = replicate 44 0 @ [0, 128]"

definition wav47 :: "jbyte list" where
  "wav47 = replicate 44 0 @ [0, 128, 7]"

section \<open>Theorems\<close>

subsection \<open>The decoding loop\<close>

lemma pcm_loop_length: "length (pcm_loop bytes i n xs) = length xs"
proof (induction bytes i n xs rule: pcm_loop.induct)
  case (1 bytes i pcmLen samples)
  show ?case
    using 1 by (subst pcm_loop.simps) simp
qed

lemma pcm_loop_nth:
  "n \<le> length xs \<Longrightarrow> k < n \<Longrightarrow>
   pcm_loop bytes i n xs ! k = (if i \<le> k then pcm_sample bytes k else xs ! k)"
proof (induction bytes i n xs arbitrary: k rule: pcm_loop.induct)
  case (1 bytes i pcmLen samples)
  show ?case
  proof (cases "i < pcmLen")
    case True
    let ?s = "samples[i := pcm_sample bytes i]"
    have step: "pcm_loop bytes i pcmLen samples = pcm_loop bytes (i + 1) pcmLen ?s"
      using True by (subst pcm_loop.simps) simp
    have ih: "pcm_loop bytes (i + 1) pcmLen ?s ! k =
              (if i + 1 \<le> k then pcm_sample bytes k else ?s ! k)"
      using "1.IH" [OF True, of k] "1.prems" by simp
    consider "k < i" | "k = i" | "i < k" by arith
    then show ?thesis
    proof cases
      case 1 then show ?thesis using step ih by simp
    next
      case 2 then show ?thesis using step ih "1.prems" by simp
    next
      case 3 then show ?thesis using step ih by simp
    qed
  next
    case False
    then show ?thesis using 1 by (subst pcm_loop.simps) simp
  qed
qed

lemma length_wav_samples: "length (wav_samples bytes) = (length bytes - 44) div 2"
proof -
  have "nat ((int (length bytes) - 44) div 2) = (length bytes - 44) div 2"
    by (cases "44 \<le> length bytes") (simp_all add: nat_div_distrib nat_diff_distrib)
  then show ?thesis
    by (simp add: wav_samples_def Let_def pcm_loop_length)
qed

lemma nth_wav_samples:
  assumes "i < (length bytes - 44) div 2"
  shows "wav_samples bytes ! i = pcm_sample bytes i"
proof -
  have n: "nat ((int (length bytes) - 44) div 2) = (length bytes - 44) div 2"
    by (cases "44 \<le> length bytes") (simp_all add: nat_div_distrib nat_diff_distrib)
  show ?thesis
    using assms by (simp add: wav_samples_def Let_def n pcm_loop_nth)
qed

subsection \<open>Two bytes as a signed 16-bit value\<close>

lemma uint_word_cat_bytes:
  "uint (word_cat hi lo :: 16 word) = uint (lo :: jbyte) + 256 * uint (hi :: jbyte)"
proof -
  have lo: "0 \<le> uint lo" "uint lo < 256" using uint_bounded [of lo] by simp_all
  have hi: "0 \<le> uint hi" "uint hi < 256" using uint_bounded [of hi] by simp_all
  have "uint (word_cat hi lo :: 16 word) = take_bit 16 (concat_bit 8 (uint lo) (uint hi))"
    by (simp only: word_cat_eq' uint_word_of_int_eq len_of_numeral_defs) simp
  also have "concat_bit 8 (uint lo) (uint hi) = uint lo + 256 * uint hi"
    using lo by (simp only: concat_bit_eq push_bit_eq_mult take_bit_eq_mod) simp
  also have "take_bit 16 (uint lo + 256 * uint hi) = uint lo + 256 * uint hi"
    using lo hi by (simp only: take_bit_eq_mod) simp
  finally show ?thesis .
qed

lemma sint_16_word:
  "sint (x :: 16 word) = (if uint x < 32768 then uint x else uint x - 65536)"
proof -
  have b: "0 \<le> uint x" "uint x < 65536" using uint_bounded [of x] by simp_all
  have "sint x = take_bit 16 (uint x + 32768) - 32768"
    by (simp only: sint_uint signed_take_bit_eq_take_bit_shift len_of_numeral_defs) simp
  then have s: "sint x = (uint x + 32768) mod 65536 - 32768"
    by (simp only: take_bit_eq_mod) simp
  show ?thesis
  proof (cases "uint x < 32768")
    case True
    then have "(uint x + 32768) mod 65536 = uint x + 32768"
      using b by (intro mod_pos_pos_trivial) simp_all
    then show ?thesis using s True by simp
  next
    case False
    have "uint x + 32768 = uint x - 32768 + 65536" by arith
    then have "(uint x + 32768) mod 65536 = (uint x - 32768 + 65536) mod 65536"
      by (rule arg_cong)
    also have "\<dots> = (uint x - 32768) mod 65536" by (simp only: mod_add_self2)
    also have "\<dots> = uint x - 32768"
      using b False by (intro mod_pos_pos_trivial) simp_all
    finally show ?thesis using s False by simp
  qed
qed

lemma pcm_sample_le_int16:
  "pcm_sample bytes i =
   real_of_int (le_int16 (bytes ! (44 + 2 * i)) (bytes ! (44 + 2 * i + 1))) / 32768"
  by (simp add: pcm_sample_def pcm16_def le_int16_def sint_16_word uint_word_cat_bytes Let_def)

lemma scaled_int16_range:
  fixes v :: int
  assumes "- 32768 \<le> v" and "v < 32768"
  shows "- 1 \<le> real_of_int v / 32768 \<and> real_of_int v / 32768 < 1"
  using assms by simp

lemma pcm_sample_range: "- 1 \<le> pcm_sample bytes i \<and> pcm_sample bytes i < 1"
proof -
  have "- 32768 \<le> sint (pcm16 bytes i)" "sint (pcm16 bytes i) < 32768"
    using sint_ge [of "pcm16 bytes i"] sint_lt [of "pcm16 bytes i"] by simp_all
  then show ?thesis
    unfolding pcm_sample_def by (rule scaled_int16_range)
qed

subsection \<open>The run of \<^verbatim>\<open>fullTranscribe\<close>\<close>

lemma fullTranscribe_params_language:
  "language (fst (fullTranscribe_params E w languageStr tr mt sb sn)) =
     (if languageStr \<noteq> ''auto'' then Lang_int (lang_id_of E languageStr)
      else language (default_params E))"
  by (simp add: fullTranscribe_params_def whisper_lang_id_def Let_def)

lemma fullTranscribe_params_live:
  "live_ctx (snd (fullTranscribe_params E w languageStr tr mt sb sn)) = live_ctx w"
  by (simp add: fullTranscribe_params_def whisper_lang_id_def Let_def)

lemma sample_engine_auto_params:
  "fullTranscribe_params sample_engine w ''auto'' False 0 False False =
     (sample_params\<lparr>print_progress := False, print_realtime := False,
        suppress_blank := False, suppress_nst := False\<rparr>, w)"
  by (simp add: fullTranscribe_params_def sample_engine_def Let_def)

lemma sample_engine_auto_language:
  "points_to_string (language (fst (fullTranscribe_params E w ''auto'' tr mt sb sn))) =
   points_to_string (language (default_params E))"
  by (simp add: fullTranscribe_params_language)

lemma sample_default_language:
  "points_to_string (language (default_params sample_engine))"
  "points_to_string (language (default_params failing_engine))"
  by (simp_all add: sample_engine_def failing_engine_def sample_params_def)

lemma fullTranscribe_live:
  assumes "contextPtr \<noteq> 0" and "contextPtr \<in> live_ctx w" and "44 \<le> length audioData"
    and "points_to_string (language (fst (fullTranscribe_params E w languageStr tr mt sb sn)))"
  shows \<open>fullTranscribe E w contextPtr audioData languageStr tr mt sb sn =
         (let samples = wav_samples audioData;
              params = fst (fullTranscribe_params E w languageStr tr mt sb sn);
              w1 = snd (fullTranscribe_params E w languageStr tr mt sb sn);
              w' = w1\<lparr>ctx_segments := (ctx_segments w1)
                         (contextPtr := full_segments E contextPtr params samples),
                       calls := calls w1 @ [Whisper_full contextPtr params samples]\<rparr>
          in if full_status E contextPtr params samples \<noteq> 0
             then Inr (''{"error":"Transformation failed"}'', w')
             else Inr (fullTranscribe_json w' contextPtr, w'))\<close>
  using assms
  by (simp add: fullTranscribe_def whisper_full_def Let_def case_prod_beta
      fullTranscribe_params_live)

lemma fullTranscribe_wild:
  assumes "contextPtr \<noteq> 0" and "contextPtr \<in> live_ctx w" and "44 \<le> length audioData"
    and "\<not> points_to_string (language (fst (fullTranscribe_params E w languageStr tr mt sb sn)))"
  shows "fullTranscribe E w contextPtr audioData languageStr tr mt sb sn =
         Inl Wild_language_pointer"
  using assms
  by (simp add: fullTranscribe_def whisper_full_def Let_def case_prod_beta
      fullTranscribe_params_live)

lemma fullTranscribe_engine_call:
  assumes "contextPtr \<noteq> 0" and "contextPtr \<in> live_ctx w" and "44 \<le> length audioData"
    and "points_to_string (language (fst (fullTranscribe_params E w languageStr tr mt sb sn)))"
  shows "\<exists>r w'.
           fullTranscribe E w contextPtr audioData languageStr tr mt sb sn = Inr (r, w') \<and>
           last (calls w') =
             Whisper_full contextPtr (fst (fullTranscribe_params E w languageStr tr mt sb sn))
               (wav_samples audioData)"
  by (simp add: fullTranscribe_live [OF assms] Let_def)
subsection \<open>C1: WAV decoding\<close>

text \<open>
  C1. Inside \<^verbatim>\<open>fullTranscribe\<close>, a buffer of \<open>L \<ge> 44\<close> bytes with \<open>L - 44\<close> even is
  decoded into exactly \<open>(L - 44) / 2\<close> samples; sample \<open>i\<close> is the little-endian signed
  16-bit value of the bytes at \<open>44 + 2 i\<close> and \<open>44 + 2 i + 1\<close> divided by 32768, and lies
  in \<open>[-1, 1]\<close>. On a live context, and with a language pointer that points to a string,
  these samples are what the engine run receives.
\<close>

theorem wav_decode_samples:
  assumes "44 \<le> length bytes" and "even (length bytes - 44)"
  shows "length (wav_samples bytes) = (length bytes - 44) div 2 \<and>
         (\<forall>i < (length bytes - 44) div 2.
            wav_samples bytes ! i =
              real_of_int (le_int16 (bytes ! (44 + 2 * i)) (bytes ! (44 + 2 * i + 1))) / 32768 \<and>
            - 1 \<le> wav_samples bytes ! i \<and> wav_samples bytes ! i \<le> 1) \<and>
         (contextPtr \<noteq> 0 \<and> contextPtr \<in> live_ctx w \<and>
          points_to_string
            (language (fst (fullTranscribe_params E w languageStr tr maxTokens sb sn))) \<longrightarrow>
            (\<exists>r w'.
               fullTranscribe E w contextPtr bytes languageStr tr maxTokens sb sn = Inr (r, w') \<and>
               last (calls w') =
                 Whisper_full contextPtr
                   (fst (fullTranscribe_params E w languageStr tr maxTokens sb sn))
                   (wav_samples bytes)))"
proof (intro conjI allI impI)
  show "length (wav_samples bytes) = (length bytes - 44) div 2"
    by (rule length_wav_samples)
next
  fix i assume i: "i < (length bytes - 44) div 2"
  then have s: "wav_samples bytes ! i = pcm_sample bytes i"
    by (rule nth_wav_samples)
  show "wav_samples bytes ! i =
          real_of_int (le_int16 (bytes ! (44 + 2 * i)) (bytes ! (44 + 2 * i + 1))) / 32768"
    using s pcm_sample_le_int16 [of bytes i] by simp
  show "- 1 \<le> wav_samples bytes ! i"
    using s pcm_sample_range [of bytes i] by simp
  show "wav_samples bytes ! i \<le> 1"
    using s pcm_sample_range [of bytes i] by simp
next
  assume "contextPtr \<noteq> 0 \<and> contextPtr \<in> live_ctx w \<and>
          points_to_string
            (language (fst (fullTranscribe_params E w languageStr tr maxTokens sb sn)))"
  then show "\<exists>r w'.
               fullTranscribe E w contextPtr bytes languageStr tr maxTokens sb sn = Inr (r, w') \<and>
               last (calls w') =
                 Whisper_full contextPtr
                   (fst (fullTranscribe_params E w languageStr tr maxTokens sb sn))
                   (wav_samples bytes)"
    using assms(1) by (intro fullTranscribe_engine_call) simp_all
qed

theorem wav_decode_samples_witness:
  "44 \<le> length wav46 \<and> even (length wav46 - 44) \<and>
   length (wav_samples wav46) = 1 \<and> wav_samples wav46 ! 0 = - 1 \<and>
   (1 :: jlong) \<noteq> 0 \<and> 1 \<in> live_ctx sample_world \<and>
   points_to_string
     (language (fst (fullTranscribe_params sample_engine sample_world ''auto'' False 0
        False False))) \<and>
   (\<exists>r w'.
      fullTranscribe sample_engine sample_world 1 wav46 ''auto'' False 0 False False =
        Inr (r, w') \<and>
      last (calls w') =
        Whisper_full 1
          (fst (fullTranscribe_params sample_engine sample_world ''auto'' False 0 False False))
          (wav_samples wav46))"
proof -
  have len: "length wav46 = 46" by (simp add: wav46_def)
  have b: "wav46 ! 44 = 0" "wav46 ! 45 = 128" by (simp_all add: wav46_def nth_append)
  have live: "(1 :: jlong) \<noteq> 0 \<and> 1 \<in> live_ctx sample_world" by (simp add: sample_world_def)
  have p: "points_to_string
     (language (fst (fullTranscribe_params sample_engine sample_world ''auto'' False 0
        False False)))"
    by (simp add: sample_engine_auto_language sample_default_language)
  show ?thesis
    using wav_decode_samples [of wav46 1 sample_world sample_engine "''auto''" False 0
        False False]
      live p
    by (simp add: len b le_int16_def)
qed

subsection \<open>The loops over the segments\<close>

lemma drop_nat_step:
  assumes "0 \<le> i" and "i < int (length xs)"
  shows "drop (nat i) xs = xs ! nat i # drop (nat (i + 1)) xs"
proof -
  have "nat i < length xs" using assms by simp
  then have "drop (nat i) xs = xs ! nat i # drop (Suc (nat i)) xs"
    by (rule Cons_nth_drop_Suc [symmetric])
  moreover have "nat (i + 1) = Suc (nat i)" using assms(1) by simp
  ultimately show ?thesis by simp
qed

lemma text_loop_concat:
  assumes "0 \<le> i" and "n = int (length (ctx_segments w ctx))"
  shows "text_loop w ctx i n json =
         json @ concat (map seg_text (drop (nat i) (ctx_segments w ctx)))"
  using assms
proof (induction w ctx i n json rule: text_loop.induct)
  case (1 w ctx i n_segments json)
  show ?case
  proof (cases "i < n_segments")
    case True
    have d: "drop (nat i) (ctx_segments w ctx) =
             ctx_segments w ctx ! nat i # drop (nat (i + 1)) (ctx_segments w ctx)"
      using True "1.prems" by (intro drop_nat_step) simp_all
    have "text_loop w ctx i n_segments json =
          text_loop w ctx (i + 1) n_segments (json @ whisper_full_get_segment_text w ctx i)"
      using True by (subst text_loop.simps) simp
    also have "\<dots> = (json @ whisper_full_get_segment_text w ctx i) @
                     concat (map seg_text (drop (nat (i + 1)) (ctx_segments w ctx)))"
      using True "1.prems" by (intro "1.IH") simp_all
    finally show ?thesis
      by (simp add: d whisper_full_get_segment_text_def)
  next
    case False
    then have "text_loop w ctx i n_segments json = json"
      by (subst text_loop.simps) simp
    moreover have "drop (nat i) (ctx_segments w ctx) = []"
      using False "1.prems" by simp
    ultimately show ?thesis by simp
  qed
qed

lemma segments_loop_step:
  assumes "i < n"
  shows "segments_loop w ctx i n json =
         segments_loop w ctx (i + 1) n
           (json @ (if i > 0 then '','' else '''') @ segment_json (ctx_segments w ctx ! nat i))"
  using assms
  by (subst segments_loop.simps)
     (simp add: Let_def segment_json_def whisper_full_get_segment_text_def
        whisper_full_get_segment_t0_def whisper_full_get_segment_t1_def)

lemma segments_loop_tail:
  assumes "0 < i" and "n = int (length (ctx_segments w ctx))"
  shows "segments_loop w ctx i n json =
         json @ concat (map (\<lambda>s. '','' @ segment_json s) (drop (nat i) (ctx_segments w ctx)))"
  using assms
proof (induction "nat (n - i)" arbitrary: i json)
  case 0
  then have "\<not> i < n" by simp
  then have "segments_loop w ctx i n json = json"
    by (subst segments_loop.simps) simp
  moreover have "drop (nat i) (ctx_segments w ctx) = []"
    using 0 by simp
  ultimately show ?case by simp
next
  case (Suc k)
  then have lt: "i < n" by simp
  have d: "drop (nat i) (ctx_segments w ctx) =
           ctx_segments w ctx ! nat i # drop (nat (i + 1)) (ctx_segments w ctx)"
    using lt Suc.prems by (intro drop_nat_step) simp_all
  let ?json = "json @ (if i > 0 then '','' else '''') @ segment_json (ctx_segments w ctx ! nat i)"
  have "segments_loop w ctx i n json = segments_loop w ctx (i + 1) n ?json"
    using lt by (rule segments_loop_step)
  also have "\<dots> = ?json @ concat (map (\<lambda>s. '','' @ segment_json s)
                             (drop (nat (i + 1)) (ctx_segments w ctx)))"
    using Suc.hyps(2) Suc.prems by (intro Suc.hyps(1)) simp_all
  finally show ?case
    using Suc.prems(1) by (simp add: d)
qed

lemma segments_loop_join:
  assumes "n = int (length (ctx_segments w ctx))"
  shows "segments_loop w ctx 0 n json =
         json @ join_commas (map segment_json (ctx_segments w ctx))"
proof (cases "ctx_segments w ctx")
  case Nil
  then show ?thesis
    using assms by (subst segments_loop.simps) simp
next
  case (Cons s ss)
  then have n: "0 < n" using assms by simp
  have "segments_loop w ctx 0 n json =
        segments_loop w ctx (0 + 1) n (json @ segment_json (ctx_segments w ctx ! nat 0))"
    using segments_loop_step [OF n, of w ctx json] by simp
  also have "\<dots> = (json @ segment_json (ctx_segments w ctx ! nat 0)) @
                   concat (map (\<lambda>s. '','' @ segment_json s)
                     (drop (nat (0 + 1)) (ctx_segments w ctx)))"
    using assms by (intro segments_loop_tail) simp_all
  finally show ?thesis
    using Cons by (simp add: comp_def)
qed

lemma fullTranscribe_json_eq:
  \<open>fullTranscribe_json w ctx =
     ''{"text": "'' @ concat (map seg_text (ctx_segments w ctx)) @ ''", "segments": ['' @
     join_commas (map segment_json (ctx_segments w ctx)) @ '']}''\<close>
  by (simp add: fullTranscribe_json_def Let_def whisper_full_n_segments_def
      text_loop_concat segments_loop_join)
lemma collect_loop_step:
  assumes "i < n"
  shows "collect_loop w ctx i n (fullText, segmentsList) =
         collect_loop w ctx (i + 1) n
           (fullText @ seg_text (ctx_segments w ctx ! nat i),
            segmentsList @ [segment_map (ctx_segments w ctx ! nat i)])"
  using assms
  by (subst collect_loop.simps)
     (simp add: Let_def segment_map_def hashMapPut_def whisper_full_get_segment_text_def
        whisper_full_get_segment_t0_def whisper_full_get_segment_t1_def)

lemma collect_loop_eq:
  assumes "0 \<le> i" and "n = int (length (ctx_segments w ctx))"
  shows "collect_loop w ctx i n (fullText, segmentsList) =
         (fullText @ concat (map seg_text (drop (nat i) (ctx_segments w ctx))),
          segmentsList @ map segment_map (drop (nat i) (ctx_segments w ctx)))"
  using assms
proof (induction "nat (n - i)" arbitrary: i fullText segmentsList)
  case 0
  then have "\<not> i < n" by simp
  then have "collect_loop w ctx i n (fullText, segmentsList) = (fullText, segmentsList)"
    by (subst collect_loop.simps) simp
  moreover have "drop (nat i) (ctx_segments w ctx) = []"
    using 0 by simp
  ultimately show ?case by simp
next
  case (Suc k)
  then have lt: "i < n" by simp
  have d: "drop (nat i) (ctx_segments w ctx) =
           ctx_segments w ctx ! nat i # drop (nat (i + 1)) (ctx_segments w ctx)"
    using lt Suc.prems by (intro drop_nat_step) simp_all
  let ?text = "fullText @ seg_text (ctx_segments w ctx ! nat i)"
  let ?list = "segmentsList @ [segment_map (ctx_segments w ctx ! nat i)]"
  have "collect_loop w ctx i n (fullText, segmentsList) =
        collect_loop w ctx (i + 1) n (?text, ?list)"
    using lt by (rule collect_loop_step)
  also have "\<dots> = (?text @ concat (map seg_text (drop (nat (i + 1)) (ctx_segments w ctx))),
                   ?list @ map segment_map (drop (nat (i + 1)) (ctx_segments w ctx)))"
    using Suc.hyps(2) Suc.prems by (intro Suc.hyps(1)) simp_all
  finally show ?case
    by (simp add: d)
qed

lemma nativeTranscribe_result_eq:
  "nativeTranscribe_result w ctx =
     JHashMap [(''result'', JString (concat (map seg_text (ctx_segments w ctx)))),
               (''segments'', JArrayList (map segment_map (ctx_segments w ctx)))]"
  by (simp add: nativeTranscribe_result_def Let_def whisper_full_n_segments_def
      collect_loop_eq hashMapPut_def)

lemma nativeTranscribe_params_language:
  "points_to_string (language (nativeTranscribe_params E lang tr mt))"
  by (simp add: nativeTranscribe_params_def Let_def split: option.splits)

lemma nativeTranscribe_live:
  assumes "contextPtr \<noteq> 0" and "contextPtr \<in> live_ctx w"
  shows "nativeTranscribe E w contextPtr samples lang tr mt =
         (let params = nativeTranscribe_params E lang tr mt;
              w' = w\<lparr>ctx_segments := (ctx_segments w)
                        (contextPtr := full_segments E contextPtr params samples),
                      calls := calls w @ [Whisper_full contextPtr params samples]\<rparr>
          in if full_status E contextPtr params samples \<noteq> 0 then Inr (None, w')
             else Inr (Some (nativeTranscribe_result w' contextPtr), w'))"
  using assms
  by (simp add: nativeTranscribe_def whisper_full_def Let_def nativeTranscribe_params_language)

subsection \<open>The result of a successful run\<close>

text \<open>
  When the run succeeds on a live context, the structured binding returns the map whose
  \<open>result\<close> is the concatenation of the texts of the segments the engine reports, in
  index order, and whose \<open>segments\<close> are the reported ones, one for one and in the same
  order, an empty text included. The JSON binding (on 44 bytes or more, with a language
  pointer that points to a string) emits the same texts, in the same order, between the
  quotes of \<open>text\<close> and in the objects of \<open>segments\<close>, character for character.
\<close>

lemma result_order_emitted:
  assumes "contextPtr \<noteq> 0" and "contextPtr \<in> live_ctx w"
  shows \<open>(full_status E contextPtr (nativeTranscribe_params E lang tr mt) samples = 0 \<longrightarrow>
          returned (nativeTranscribe E w contextPtr samples lang tr mt) =
            Some (Some (JHashMap
              [(''result'', JString (concat (map seg_text
                  (full_segments E contextPtr (nativeTranscribe_params E lang tr mt) samples)))),
               (''segments'', JArrayList (map segment_map
                  (full_segments E contextPtr (nativeTranscribe_params E lang tr mt) samples)))]))) \<and>
         (44 \<le> length bytes \<and>
          points_to_string (language (fst (fullTranscribe_params E w languageStr tr mt sb sn))) \<and>
          full_status E contextPtr (fst (fullTranscribe_params E w languageStr tr mt sb sn))
            (wav_samples bytes) = 0 \<longrightarrow>
          returned (fullTranscribe E w contextPtr bytes languageStr tr mt sb sn) =
            Some (''{"text": "'' @
              concat (map seg_text
                (full_segments E contextPtr (fst (fullTranscribe_params E w languageStr tr mt sb sn))
                   (wav_samples bytes))) @
              ''", "segments": ['' @
              join_commas (map segment_json
                (full_segments E contextPtr (fst (fullTranscribe_params E w languageStr tr mt sb sn))
                   (wav_samples bytes))) @
              '']}''))\<close>
proof (intro conjI impI)
  assume "full_status E contextPtr (nativeTranscribe_params E lang tr mt) samples = 0"
  then show "returned (nativeTranscribe E w contextPtr samples lang tr mt) =
            Some (Some (JHashMap
              [(''result'', JString (concat (map seg_text
                  (full_segments E contextPtr (nativeTranscribe_params E lang tr mt) samples)))),
               (''segments'', JArrayList (map segment_map
                  (full_segments E contextPtr (nativeTranscribe_params E lang tr mt) samples)))]))"
    by (simp add: nativeTranscribe_live [OF assms] Let_def returned_def
        nativeTranscribe_result_eq)
next
  assume a: "44 \<le> length bytes \<and>
          points_to_string (language (fst (fullTranscribe_params E w languageStr tr mt sb sn))) \<and>
          full_status E contextPtr (fst (fullTranscribe_params E w languageStr tr mt sb sn))
            (wav_samples bytes) = 0"
  then have len: "44 \<le> length bytes"
    and p: "points_to_string (language (fst (fullTranscribe_params E w languageStr tr mt sb sn)))"
    by simp_all
  show \<open>returned (fullTranscribe E w contextPtr bytes languageStr tr mt sb sn) =
            Some (''{"text": "'' @
              concat (map seg_text
                (full_segments E contextPtr (fst (fullTranscribe_params E w languageStr tr mt sb sn))
                   (wav_samples bytes))) @
              ''", "segments": ['' @
              join_commas (map segment_json
                (full_segments E contextPtr (fst (fullTranscribe_params E w languageStr tr mt sb sn))
                   (wav_samples bytes))) @
              '']}'')\<close>
    using a
    by (simp add: fullTranscribe_live [OF assms len p] Let_def returned_def
        fullTranscribe_json_eq)
qed

lemma result_order_emitted_sample:
  \<open>returned (nativeTranscribe sample_engine sample_world 1 [] None False 0) =
     Some (Some (JHashMap
       [(''result'', JString ''Hello world''),
        (''segments'', JArrayList
           [JHashMap [(''text'', JString ''Hello''), (''t0'', JLong 0), (''t1'', JLong 150)],
            JHashMap [(''text'', JString ''''), (''t0'', JLong 150), (''t1'', JLong 150)],
            JHashMap [(''text'', JString '' world''), (''t0'', JLong 150), (''t1'', JLong 300)]])])) \<and>
   returned (fullTranscribe sample_engine sample_world 1 wav46 ''auto'' False 0 False False) =
     Some (''{"text": "Hello world", "segments": ['' @
           ''{"text": "Hello","t0": 0,"t1": 150},'' @
           ''{"text": "","t0": 150,"t1": 150},'' @
           ''{"text": " world","t0": 150,"t1": 300}]}'')\<close>
proof -
  have live: "(1 :: jlong) \<noteq> 0" "1 \<in> live_ctx sample_world"
    by (simp_all add: sample_world_def)
  have st: "full_status sample_engine ctx params samples = 0" for ctx params samples
    by (simp add: sample_engine_def)
  have sg: "full_segments sample_engine ctx params samples = sample_segments" for ctx params samples
    by (simp add: sample_engine_def)
  have len: "44 \<le> length wav46" by (simp add: wav46_def)
  have p: "points_to_string
     (language (fst (fullTranscribe_params sample_engine sample_world ''auto'' False 0
        False False)))"
    by (simp add: sample_engine_auto_language sample_default_language)
  have n: "show_int 0 = ''0''" "show_int 150 = ''150''" "show_int 300 = ''300''"
    by (simp_all add: show_int_def show_nat.simps)
  show ?thesis
    using result_order_emitted [OF live, where E = sample_engine and lang = None
        and tr = False and mt = 0 and samples = "[]" and bytes = wav46
        and languageStr = "''auto''" and sb = False and sn = False]
    by (simp add: st sg len p n sample_segments_def segment_map_def segment_json_def)
qed

subsection \<open>C2: the full text of the JSON binding\<close>

text \<open>
  C2 holds for the structured binding and fails for the JSON binding, which writes the
  texts of the segments between the quotes of its JSON text as they are, a double quote
  or a backslash included. The engine reports one segment with the text \<open>say "hi"\<close>.
  \<^verbatim>\<open>fullTranscribe\<close> returns a text in which the string after the key \<open>text\<close> ends
  at the quote before \<open>hi\<close>: the full-text field that a reader of the returned value
  finds is \<open>say \<close>, which is not the concatenation of the texts of the segments.
\<close>

theorem json_text_unescaped:
  \<open>concat (map seg_text (full_segments quoting_engine 1
      (fst (fullTranscribe_params quoting_engine sample_world ''auto'' False 0 False False))
      (wav_samples wav46))) = ''say "hi"'' \<and>
   returned (fullTranscribe quoting_engine sample_world 1 wav46 ''auto'' False 0 False False) =
     Some (''{"text": "say "hi"", "segments": ['' @
           ''{"text": "say "hi"","t0": 0,"t1": 100}]}'') \<and>
   json_string_body (drop 10
     (''{"text": "say "hi"", "segments": ['' @
      ''{"text": "say "hi"","t0": 0,"t1": 100}]}'')) = ''say ''\<close>
proof -
  have live: "(1 :: jlong) \<noteq> 0" "1 \<in> live_ctx sample_world"
    by (simp_all add: sample_world_def)
  have st: "full_status quoting_engine ctx params samples = 0" for ctx params samples
    by (simp add: quoting_engine_def sample_engine_def)
  have sg: \<open>full_segments quoting_engine ctx params samples =
            [\<lparr>seg_text = ''say "hi"'', seg_t0 = 0, seg_t1 = 100\<rparr>]\<close> for ctx params samples
    by (simp add: quoting_engine_def)
  have len: "44 \<le> length wav46" by (simp add: wav46_def)
  have p: "points_to_string
     (language (fst (fullTranscribe_params quoting_engine sample_world ''auto'' False 0
        False False)))"
    by (simp add: sample_engine_auto_language quoting_engine_def sample_engine_def
        sample_params_def)
  have n: "show_int 0 = ''0''" "show_int 100 = ''100''"
    by (simp_all add: show_int_def show_nat.simps)
  have \<open>returned (fullTranscribe quoting_engine sample_world 1 wav46 ''auto'' False 0
          False False) =
        Some (''{"text": "say "hi"", "segments": ['' @
              ''{"text": "say "hi"","t0": 0,"t1": 100}]}'')\<close>
    by (simp add: fullTranscribe_live [OF live len p] Let_def returned_def
        fullTranscribe_json_eq st sg n segment_json_def)
  moreover have \<open>json_string_body (drop 10
     (''{"text": "say "hi"", "segments": ['' @
      ''{"text": "say "hi"","t0": 0,"t1": 100}]}'')) = ''say ''\<close>
    by simp
  ultimately show ?thesis
    by (simp add: sg)
qed

subsection \<open>The calls, case by case\<close>

lemma nativeStart_cases:
  "nativeStartChunkedRealtimeTranscribeWithState E w contextPtr spc lang tr mt vad ac ss nc nt =
     (if contextPtr = 0 then Inr (False, w)
      else if contextPtr \<notin> live_ctx w then Inl Dangling_context
      else if \<not> state_alloc_ok E contextPtr (length (states w))
      then Inr (False, w\<lparr>calls := calls w @ [Whisper_init_state contextPtr]\<rparr>)
      else Inr (True, w\<lparr>states := states w @ [None],
                         calls := calls w @ [Whisper_init_state contextPtr,
                                             Whisper_state_free (length (states w))]\<rparr>))"
  by (simp add: nativeStartChunkedRealtimeTranscribeWithState_def whisper_init_state_def
      whisper_state_free_def state_held_def Let_def)

lemma nativeDetect_cases:
  "nativeDetectLanguageWithState E w contextPtr audioData nThreads =
     (if contextPtr = 0 then Inr (None, w)
      else if contextPtr \<notin> live_ctx w then Inl Dangling_context
      else if \<not> state_alloc_ok E contextPtr (length (states w))
      then Inr (None, w\<lparr>calls := calls w @ [Whisper_init_state contextPtr]\<rparr>)
      else if pcm_to_mel_status E contextPtr audioData \<noteq> 0
      then Inr (None,
             w\<lparr>states := states w @ [None],
               calls := calls w @
                 [Whisper_init_state contextPtr,
                  Whisper_pcm_to_mel_with_state contextPtr (length (states w)) audioData,
                  Whisper_state_free (length (states w))]\<rparr>)
      else Inr
            (if auto_detect_id E contextPtr audioData nThreads < 0 then None
             else case lang_str_of E (auto_detect_id E contextPtr audioData nThreads) of
               None \<Rightarrow> None
             | Some langCode \<Rightarrow>
                 Some (JHashMap
                   [(''language'', JString langCode),
                    (''confidence'', JDouble confidence),
                    (''languageName'', JString
                       (case lang_str_full_of E (auto_detect_id E contextPtr audioData nThreads) of
                          None \<Rightarrow> langCode | Some name \<Rightarrow> name))]),
             w\<lparr>states := states w @ [None],
               calls := calls w @
                 [Whisper_init_state contextPtr,
                  Whisper_pcm_to_mel_with_state contextPtr (length (states w)) audioData,
                  Whisper_lang_auto_detect_with_state contextPtr (length (states w)) nThreads,
                  Whisper_state_free (length (states w))]\<rparr>))"
  by (simp add: nativeDetectLanguageWithState_def whisper_init_state_def
      whisper_pcm_to_mel_with_state_def whisper_lang_auto_detect_with_state_def
      whisper_state_free_def state_held_def state_audio_def hashMapPut_def Let_def
      split: option.splits)

lemma nativeTranscribe_dangling:
  assumes "contextPtr \<noteq> 0" and "contextPtr \<notin> live_ctx w"
  shows "nativeTranscribe E w contextPtr samples lang tr mt = Inl Dangling_context"
  using assms by (simp add: nativeTranscribe_def whisper_full_def Let_def)

lemma fullTranscribe_dangling:
  assumes "contextPtr \<noteq> 0" and "contextPtr \<notin> live_ctx w" and "44 \<le> length audioData"
  shows "fullTranscribe E w contextPtr audioData languageStr tr mt sb sn = Inl Dangling_context"
proof -
  have "live_ctx (snd (fullTranscribe_params E w languageStr tr mt sb sn)) = live_ctx w"
    by (simp add: fullTranscribe_params_def whisper_lang_id_def Let_def)
  then show ?thesis
    using assms by (simp add: fullTranscribe_def whisper_full_def Let_def case_prod_beta)
qed

lemma fullTranscribe_short:
  assumes "contextPtr \<noteq> 0" and "length audioData < 44"
  shows \<open>fullTranscribe E w contextPtr audioData languageStr tr mt sb sn =
         Inr (''{"error":"Invalid WAV"}'', w)\<close>
  using assms by (simp add: fullTranscribe_def Let_def)

lemma states_held_released:
  assumes "states w' = states w @ [None]"
  shows "states_held w' = states_held w"
  using assms by (auto simp: states_held_def state_held_def nth_append)

lemma states_held_same:
  assumes "states w' = states w"
  shows "states_held w' = states_held w"
  using assms by (simp add: states_held_def state_held_def)
subsection \<open>C3: operations on a released handle\<close>

text \<open>
  C3, as stated, fails: the bindings keep no closed flag, and a released handle is not
  null. In the sample world \<^verbatim>\<open>freeContext\<close> releases the context at address 1; a
  later \<^verbatim>\<open>nativeTranscribe\<close>, \<^verbatim>\<open>nativeDetectLanguageWithState\<close>, streaming start,
  \<^verbatim>\<open>fullTranscribe\<close> or second \<^verbatim>\<open>freeContext\<close> on that handle does not return a
  failure: it hands the released context to the engine.
\<close>

theorem released_handle_counterexample:
  "nativeFreeContext sample_world 1 = Inr released_world \<and>
   freeContext sample_world 1 = Inr released_world \<and>
   nativeTranscribe sample_engine released_world 1 [] None False 0 = Inl Dangling_context \<and>
   nativeDetectLanguageWithState sample_engine released_world 1 [] 4 = Inl Dangling_context \<and>
   nativeStartChunkedRealtimeTranscribeWithState sample_engine released_world 1 16000 None
     False 0 False 512 True False 4 = Inl Dangling_context \<and>
   fullTranscribe sample_engine released_world 1 wav46 ''auto'' False 0 False False =
     Inl Dangling_context \<and>
   nativeFreeContext released_world 1 = Inl Dangling_context"
proof -
  have r: "(1 :: jlong) \<noteq> 0" "(1 :: jlong) \<notin> live_ctx released_world"
    by (simp_all add: released_world_def)
  have len: "44 \<le> length wav46" by (simp add: wav46_def)
  have "nativeFreeContext sample_world 1 = Inr released_world"
    by (simp add: nativeFreeContext_def whisper_free_def sample_world_def released_world_def)
  moreover have "freeContext sample_world 1 = Inr released_world"
    by (simp add: freeContext_def whisper_free_def sample_world_def released_world_def)
  moreover have "nativeTranscribe sample_engine released_world 1 [] None False 0 =
                 Inl Dangling_context"
    using r by (rule nativeTranscribe_dangling)
  moreover have "nativeDetectLanguageWithState sample_engine released_world 1 [] 4 =
                 Inl Dangling_context"
    using r by (simp add: nativeDetect_cases)
  moreover have "nativeStartChunkedRealtimeTranscribeWithState sample_engine released_world 1
                   16000 None False 0 False 512 True False 4 = Inl Dangling_context"
    using r by (simp add: nativeStart_cases)
  moreover have "fullTranscribe sample_engine released_world 1 wav46 ''auto'' False 0 False False =
                 Inl Dangling_context"
    using r len by (rule fullTranscribe_dangling)
  moreover have "nativeFreeContext released_world 1 = Inl Dangling_context"
    using r by (simp add: nativeFreeContext_def whisper_free_def)
  ultimately show ?thesis by simp
qed

text \<open>
  C3, amended. The bindings tell only the null handle from the others. On the null
  handle every operation returns at once and the engine is not called: null from
  \<^verbatim>\<open>nativeTranscribe\<close> and \<^verbatim>\<open>nativeDetectLanguageWithState\<close>, false from the streaming
  start. On a live handle no operation hands the engine a released context. After
  \<^verbatim>\<open>freeContext\<close> on a live handle that handle is released, and every further
  operation on it (for \<^verbatim>\<open>fullTranscribe\<close>, with 44 bytes or more), a second
  \<^verbatim>\<open>freeContext\<close> included, passes the null check and hands the released context to
  the engine.
\<close>

theorem handle_validity:
  "nativeTranscribe E w 0 samples lang tr mt = Inr (None, w) \<and>
   nativeDetectLanguageWithState E w 0 samples nt = Inr (None, w) \<and>
   nativeStartChunkedRealtimeTranscribeWithState E w 0 spc lang tr mt vad ac ss nc nt =
     Inr (False, w) \<and>
   (\<exists>r. fullTranscribe E w 0 bytes languageStr tr mt sb sn = Inr (r, w)) \<and>
   (h \<noteq> 0 \<and> h \<in> live_ctx w \<longrightarrow>
      returned (nativeTranscribe E w h samples lang tr mt) \<noteq> None \<and>
      returned (nativeDetectLanguageWithState E w h samples nt) \<noteq> None \<and>
      returned (nativeStartChunkedRealtimeTranscribeWithState E w h spc lang tr mt vad ac ss nc nt)
        \<noteq> None \<and>
      fullTranscribe E w h bytes languageStr tr mt sb sn \<noteq> Inl Dangling_context \<and>
      (points_to_string (language (fst (fullTranscribe_params E w languageStr tr mt sb sn))) \<longrightarrow>
         returned (fullTranscribe E w h bytes languageStr tr mt sb sn) \<noteq> None) \<and>
      freeContext w h =
        Inr (w\<lparr>live_ctx := live_ctx w - {h}, calls := calls w @ [Whisper_free h]\<rparr>) \<and>
      nativeFreeContext w h =
        Inr (w\<lparr>live_ctx := live_ctx w - {h}, calls := calls w @ [Whisper_free h]\<rparr>)) \<and>
   (h \<noteq> 0 \<and> h \<notin> live_ctx w \<longrightarrow>
      nativeTranscribe E w h samples lang tr mt = Inl Dangling_context \<and>
      nativeDetectLanguageWithState E w h samples nt = Inl Dangling_context \<and>
      nativeStartChunkedRealtimeTranscribeWithState E w h spc lang tr mt vad ac ss nc nt =
        Inl Dangling_context \<and>
      (44 \<le> length bytes \<longrightarrow>
         fullTranscribe E w h bytes languageStr tr mt sb sn = Inl Dangling_context) \<and>
      freeContext w h = Inl Dangling_context \<and>
      nativeFreeContext w h = Inl Dangling_context)"
proof (intro conjI impI)
  show "nativeTranscribe E w 0 samples lang tr mt = Inr (None, w)"
    by (simp add: nativeTranscribe_def)
  show "nativeDetectLanguageWithState E w 0 samples nt = Inr (None, w)"
    by (simp add: nativeDetect_cases)
  show "nativeStartChunkedRealtimeTranscribeWithState E w 0 spc lang tr mt vad ac ss nc nt =
          Inr (False, w)"
    by (simp add: nativeStart_cases)
  show "\<exists>r. fullTranscribe E w 0 bytes languageStr tr mt sb sn = Inr (r, w)"
    by (simp add: fullTranscribe_def)
next
  assume live: "h \<noteq> 0 \<and> h \<in> live_ctx w"
  then have h: "h \<noteq> 0" "h \<in> live_ctx w" by simp_all
  show "returned (nativeTranscribe E w h samples lang tr mt) \<noteq> None"
    by (simp add: nativeTranscribe_live [OF h] Let_def returned_def)
  show "returned (nativeDetectLanguageWithState E w h samples nt) \<noteq> None"
    using h by (simp add: nativeDetect_cases returned_def)
  show "returned (nativeStartChunkedRealtimeTranscribeWithState E w h spc lang tr mt vad ac ss nc nt)
          \<noteq> None"
    using h by (auto simp: nativeStart_cases returned_def)
  show "fullTranscribe E w h bytes languageStr tr mt sb sn \<noteq> Inl Dangling_context"
  proof (cases "44 \<le> length bytes")
    case True
    show ?thesis
    proof (cases "points_to_string
        (language (fst (fullTranscribe_params E w languageStr tr mt sb sn)))")
      case True
      then show ?thesis
        by (simp add: fullTranscribe_live [OF h \<open>44 \<le> length bytes\<close> True] Let_def)
    next
      case False
      then show ?thesis
        by (simp add: fullTranscribe_wild [OF h \<open>44 \<le> length bytes\<close> False])
    qed
  next
    case False
    then show ?thesis
      using h by (simp add: fullTranscribe_short)
  qed
  show "returned (fullTranscribe E w h bytes languageStr tr mt sb sn) \<noteq> None"
    if p: "points_to_string (language (fst (fullTranscribe_params E w languageStr tr mt sb sn)))"
  proof (cases "44 \<le> length bytes")
    case True
    then show ?thesis
      by (simp add: fullTranscribe_live [OF h True p] Let_def returned_def)
  next
    case False
    then show ?thesis
      using h by (simp add: fullTranscribe_short returned_def)
  qed
  show "freeContext w h =
          Inr (w\<lparr>live_ctx := live_ctx w - {h}, calls := calls w @ [Whisper_free h]\<rparr>)"
    using h by (simp add: freeContext_def whisper_free_def)
  show "nativeFreeContext w h =
          Inr (w\<lparr>live_ctx := live_ctx w - {h}, calls := calls w @ [Whisper_free h]\<rparr>)"
    using h by (simp add: nativeFreeContext_def whisper_free_def)
next
  assume dead: "h \<noteq> 0 \<and> h \<notin> live_ctx w"
  then have h: "h \<noteq> 0" "h \<notin> live_ctx w" by simp_all
  show "nativeTranscribe E w h samples lang tr mt = Inl Dangling_context"
    using h by (rule nativeTranscribe_dangling)
  show "nativeDetectLanguageWithState E w h samples nt = Inl Dangling_context"
    using h by (simp add: nativeDetect_cases)
  show "nativeStartChunkedRealtimeTranscribeWithState E w h spc lang tr mt vad ac ss nc nt =
          Inl Dangling_context"
    using h by (simp add: nativeStart_cases)
  show "freeContext w h = Inl Dangling_context"
    using h by (simp add: freeContext_def whisper_free_def)
  show "nativeFreeContext w h = Inl Dangling_context"
    using h by (simp add: nativeFreeContext_def whisper_free_def)
  assume "44 \<le> length bytes"
  with h show "fullTranscribe E w h bytes languageStr tr mt sb sn = Inl Dangling_context"
    by (rule fullTranscribe_dangling)
qed
theorem handle_validity_witness:
  "(1 :: jlong) \<noteq> 0 \<and> 1 \<in> live_ctx sample_world \<and>
   returned (nativeTranscribe sample_engine sample_world 1 [] None False 0) \<noteq> None \<and>
   returned (nativeDetectLanguageWithState sample_engine sample_world 1 [] 4) \<noteq> None \<and>
   points_to_string
     (language (fst (fullTranscribe_params sample_engine sample_world ''auto'' False 0
        False False))) \<and>
   returned (fullTranscribe sample_engine sample_world 1 wav46 ''auto'' False 0 False False)
     \<noteq> None \<and>
   freeContext sample_world 1 = Inr released_world \<and>
   nativeFreeContext sample_world 1 = Inr released_world \<and>
   1 \<notin> live_ctx released_world \<and> 44 \<le> length wav46 \<and>
   nativeTranscribe sample_engine released_world 1 [] None False 0 = Inl Dangling_context \<and>
   nativeDetectLanguageWithState sample_engine released_world 1 [] 4 = Inl Dangling_context \<and>
   nativeStartChunkedRealtimeTranscribeWithState sample_engine released_world 1 16000 None
     False 0 False 512 True False 4 = Inl Dangling_context \<and>
   fullTranscribe sample_engine released_world 1 wav46 ''auto'' False 0 False False =
     Inl Dangling_context \<and>
   freeContext released_world 1 = Inl Dangling_context \<and>
   nativeTranscribe sample_engine released_world 0 [] None False 0 = Inr (None, released_world)"
proof -
  have live: "(1 :: jlong) \<noteq> 0 \<and> 1 \<in> live_ctx sample_world"
    by (simp add: sample_world_def)
  have dead: "(1 :: jlong) \<noteq> 0 \<and> 1 \<notin> live_ctx released_world"
    by (simp add: released_world_def)
  have len: "44 \<le> length wav46" by (simp add: wav46_def)
  have rel: "sample_world\<lparr>live_ctx := live_ctx sample_world - {1},
               calls := calls sample_world @ [Whisper_free 1]\<rparr> = released_world"
    by (simp add: sample_world_def released_world_def)
  have p: "points_to_string
     (language (fst (fullTranscribe_params sample_engine w ''auto'' False 0 False False)))" for w
    by (simp add: sample_engine_auto_language sample_default_language)
  show ?thesis
    using handle_validity [where E = sample_engine and w = sample_world and h = 1
        and samples = "[]" and lang = None and tr = False and mt = 0 and nt = 4
        and spc = 16000 and vad = False and ac = 512 and ss = True and nc = False
        and bytes = wav46 and languageStr = "''auto''" and sb = False and sn = False]
      handle_validity [where E = sample_engine and w = released_world and h = 1
        and samples = "[]" and lang = None and tr = False and mt = 0 and nt = 4
        and spc = 16000 and vad = False and ac = 512 and ss = True and nc = False
        and bytes = wav46 and languageStr = "''auto''" and sb = False and sn = False]
      live dead len
    by (simp add: rel p)
qed

subsection \<open>C10: \<^verbatim>\<open>freeContext\<close> on the null handle\<close>

text \<open>
  C10. \<^verbatim>\<open>freeContext\<close> on the null handle 0 does nothing, in both bindings: the world
  is unchanged, so no context is released and the engine is not called.
\<close>

theorem freeContext_null:
  "freeContext w 0 = Inr w \<and> nativeFreeContext w 0 = Inr w"
  by (simp add: freeContext_def nativeFreeContext_def)

subsection \<open>C7 and C9: the state a call creates\<close>

text \<open>
  C7. Whatever \<^verbatim>\<open>nativeDetectLanguageWithState\<close> returns, the states held after the
  call are those held before it: either no state was allocated, or the one allocated
  is released, and then the release is the last engine call made.
\<close>

theorem detect_language_releases_state:
  assumes "nativeDetectLanguageWithState E w contextPtr audioData nThreads = Inr (r, w')"
  shows "states_held w' = states_held w \<and>
         (states w' = states w \<or>
          states w' = states w @ [None] \<and>
          last (calls w') = Whisper_state_free (length (states w)))"
proof -
  have d: "states w' = states w \<or>
           states w' = states w @ [None] \<and>
           last (calls w') = Whisper_state_free (length (states w))"
    using assms by (auto simp: nativeDetect_cases split: if_splits)
  then have "states_held w' = states_held w"
    using states_held_released [of w' w] states_held_same [of w' w] by blast
  with d show ?thesis by simp
qed

theorem detect_language_releases_state_witness:
  "nativeDetectLanguageWithState sample_engine sample_world 1 [1 / 2] 4 =
     Inr (Some (JHashMap [(''language'', JString ''en''), (''confidence'', JDouble confidence),
                          (''languageName'', JString ''english'')]),
          sample_world\<lparr>states := [None],
            calls := [Whisper_init_state 1, Whisper_pcm_to_mel_with_state 1 0 [1 / 2],
                      Whisper_lang_auto_detect_with_state 1 0 4, Whisper_state_free 0]\<rparr>) \<and>
   states_held (sample_world\<lparr>states := [None],
            calls := [Whisper_init_state 1, Whisper_pcm_to_mel_with_state 1 0 [1 / 2],
                      Whisper_lang_auto_detect_with_state 1 0 4, Whisper_state_free 0]\<rparr>) =
     states_held sample_world \<and>
   states_held sample_world = {}"
proof -
  have eq: "nativeDetectLanguageWithState sample_engine sample_world 1 [1 / 2] 4 =
     Inr (Some (JHashMap [(''language'', JString ''en''), (''confidence'', JDouble confidence),
                          (''languageName'', JString ''english'')]),
          sample_world\<lparr>states := [None],
            calls := [Whisper_init_state 1, Whisper_pcm_to_mel_with_state 1 0 [1 / 2],
                      Whisper_lang_auto_detect_with_state 1 0 4, Whisper_state_free 0]\<rparr>)"
    by (simp add: nativeDetect_cases sample_engine_def sample_world_def)
  have e: "states_held sample_world = {}"
    by (simp add: states_held_def state_held_def sample_world_def)
  show ?thesis
    using detect_language_releases_state [OF eq] eq e by simp
qed

text \<open>
  C9. Whatever the streaming start returns, the states held after the call are those
  held before it. When it returns true it has allocated one state and released it: the
  two engine calls it made are the allocation and the release, and the state is no
  longer held.
\<close>

theorem streaming_start_releases_state:
  assumes "nativeStartChunkedRealtimeTranscribeWithState E w contextPtr spc lang tr mt vad ac
             ss nc nt = Inr (r, w')"
  shows "states_held w' = states_held w \<and>
         (r \<longrightarrow> states w' = states w @ [None] \<and>
                \<not> state_held w' (length (states w)) \<and>
                calls w' = calls w @ [Whisper_init_state contextPtr,
                                      Whisper_state_free (length (states w))])"
proof -
  have d: "states w' = states w \<and> \<not> r \<or>
           states w' = states w @ [None] \<and>
           calls w' = calls w @ [Whisper_init_state contextPtr,
                                 Whisper_state_free (length (states w))]"
    using assms by (auto simp: nativeStart_cases split: if_splits)
  then have "states_held w' = states_held w"
    using states_held_released [of w' w] states_held_same [of w' w] by blast
  moreover have "states w' = states w @ [None] \<Longrightarrow> \<not> state_held w' (length (states w))"
    by (simp add: state_held_def)
  ultimately show ?thesis
    using d by auto
qed

theorem streaming_start_releases_state_witness:
  "nativeStartChunkedRealtimeTranscribeWithState sample_engine sample_world 1 16000 None
     False 0 False 512 True False 4 =
     Inr (True, sample_world\<lparr>states := [None],
                  calls := [Whisper_init_state 1, Whisper_state_free 0]\<rparr>) \<and>
   states_held (sample_world\<lparr>states := [None],
                  calls := [Whisper_init_state 1, Whisper_state_free 0]\<rparr>) = {} \<and>
   \<not> state_held (sample_world\<lparr>states := [None],
                  calls := [Whisper_init_state 1, Whisper_state_free 0]\<rparr>) 0"
proof -
  have eq: "nativeStartChunkedRealtimeTranscribeWithState sample_engine sample_world 1 16000 None
     False 0 False 512 True False 4 =
     Inr (True, sample_world\<lparr>states := [None],
                  calls := [Whisper_init_state 1, Whisper_state_free 0]\<rparr>)"
    by (simp add: nativeStart_cases sample_engine_def sample_world_def)
  have e: "states_held sample_world = {}" "states sample_world = []"
    by (simp_all add: states_held_def state_held_def sample_world_def)
  show ?thesis
    using streaming_start_releases_state [OF eq] eq e by simp
qed

subsection \<open>C4: what a failure returns\<close>

text \<open>
  C4, as stated, fails. \<^verbatim>\<open>fullTranscribe\<close> on the null handle returns the empty JSON
  object, with no error in it. The structured binding returns a bare null or false: the
  null of \<^verbatim>\<open>nativeTranscribe\<close> on the null handle is the null it returns when the
  engine fails with status 1, so the value does not tell the host which failure it was.
\<close>

theorem failure_values_counterexample:
  \<open>returned (fullTranscribe sample_engine sample_world 0 wav46 ''auto'' False 0 False False) =
     Some ''{}'' \<and>
   returned (nativeTranscribe sample_engine sample_world 0 [] None False 0) = Some None \<and>
   returned (nativeTranscribe failing_engine sample_world 1 [] None False 0) = Some None \<and>
   returned (nativeDetectLanguageWithState sample_engine sample_world 0 [] 4) = Some None \<and>
   returned (nativeStartChunkedRealtimeTranscribeWithState sample_engine sample_world 0 16000
     None False 0 False 512 True False 4) = Some False\<close>
proof -
  have live: "(1 :: jlong) \<noteq> 0" "1 \<in> live_ctx sample_world"
    by (simp_all add: sample_world_def)
  have st: "full_status failing_engine ctx params samples = 1" for ctx params samples
    by (simp add: failing_engine_def)
  have "returned (fullTranscribe sample_engine sample_world 0 wav46 ''auto'' False 0 False False) =
        Some ''{}''"
    by (simp add: returned_def fullTranscribe_def)
  moreover have "returned (nativeTranscribe sample_engine sample_world 0 [] None False 0) =
                 Some None"
    by (simp add: returned_def nativeTranscribe_def)
  moreover have "returned (nativeTranscribe failing_engine sample_world 1 [] None False 0) =
                 Some None"
    by (simp add: returned_def nativeTranscribe_live [OF live] st Let_def)
  moreover have "returned (nativeDetectLanguageWithState sample_engine sample_world 0 [] 4) =
                 Some None"
    by (simp add: returned_def nativeDetect_cases)
  moreover have "returned (nativeStartChunkedRealtimeTranscribeWithState sample_engine
                   sample_world 0 16000 None False 0 False 512 True False 4) = Some False"
    by (simp add: returned_def nativeStart_cases)
  ultimately show ?thesis by simp
qed

text \<open>
  C4, amended. On a handle that is null or live the three operations of the structured
  binding do not crash, and each returns its bare failure value, which carries no kind
  and no code: \<^verbatim>\<open>nativeTranscribe\<close> returns null exactly when the handle is null or
  the engine's status is not 0, \<^verbatim>\<open>nativeDetectLanguageWithState\<close> returns null exactly
  when the handle is null, no state can be allocated, the conversion fails, the detected
  id is negative or the id has no language code, and the streaming start returns false
  exactly when the handle is null or no state can be allocated. \<^verbatim>\<open>fullTranscribe\<close> on
  a non-null handle returns the object with the error \<open>Invalid WAV\<close> when the buffer
  is shorter than 44 bytes, and the object with the error \<open>Transformation failed\<close> when
  the handle is live, the buffer has 44 bytes or more, the language pointer points to a
  string and the engine's status is not 0.
\<close>

theorem failure_values:
  assumes "h = 0 \<or> h \<in> live_ctx w"
  shows \<open>returned (nativeTranscribe E w h samples lang tr mt) \<noteq> None \<and>
         (returned (nativeTranscribe E w h samples lang tr mt) = Some None \<longleftrightarrow>
            h = 0 \<or> full_status E h (nativeTranscribe_params E lang tr mt) samples \<noteq> 0) \<and>
         returned (nativeDetectLanguageWithState E w h samples nt) \<noteq> None \<and>
         (returned (nativeDetectLanguageWithState E w h samples nt) = Some None \<longleftrightarrow>
            h = 0 \<or> \<not> state_alloc_ok E h (length (states w)) \<or>
            pcm_to_mel_status E h samples \<noteq> 0 \<or> auto_detect_id E h samples nt < 0 \<or>
            lang_str_of E (auto_detect_id E h samples nt) = None) \<and>
         returned (nativeStartChunkedRealtimeTranscribeWithState E w h spc lang tr mt vad ac
            ss nc nt) \<noteq> None \<and>
         (returned (nativeStartChunkedRealtimeTranscribeWithState E w h spc lang tr mt vad ac
            ss nc nt) = Some False \<longleftrightarrow>
            h = 0 \<or> \<not> state_alloc_ok E h (length (states w))) \<and>
         (h \<noteq> 0 \<and> length bytes < 44 \<longrightarrow>
            returned (fullTranscribe E w h bytes languageStr tr mt sb sn) =
              Some ''{"error":"Invalid WAV"}'') \<and>
         (h \<noteq> 0 \<and> 44 \<le> length bytes \<and>
          points_to_string (language (fst (fullTranscribe_params E w languageStr tr mt sb sn))) \<and>
          full_status E h (fst (fullTranscribe_params E w languageStr tr mt sb sn))
            (wav_samples bytes) \<noteq> 0 \<longrightarrow>
            returned (fullTranscribe E w h bytes languageStr tr mt sb sn) =
              Some ''{"error":"Transformation failed"}'')\<close>
proof (cases "h = 0")
  case True
  then show ?thesis
    by (simp add: returned_def nativeTranscribe_def nativeDetect_cases nativeStart_cases)
next
  case False
  with assms have h: "h \<noteq> 0" "h \<in> live_ctx w" by simp_all
  have t: "returned (nativeTranscribe E w h samples lang tr mt) \<noteq> None \<and>
         (returned (nativeTranscribe E w h samples lang tr mt) = Some None \<longleftrightarrow>
            h = 0 \<or> full_status E h (nativeTranscribe_params E lang tr mt) samples \<noteq> 0)"
    using h by (simp add: nativeTranscribe_live [OF h] Let_def returned_def)
  have d: "returned (nativeDetectLanguageWithState E w h samples nt) \<noteq> None \<and>
         (returned (nativeDetectLanguageWithState E w h samples nt) = Some None \<longleftrightarrow>
            h = 0 \<or> \<not> state_alloc_ok E h (length (states w)) \<or>
            pcm_to_mel_status E h samples \<noteq> 0 \<or> auto_detect_id E h samples nt < 0 \<or>
            lang_str_of E (auto_detect_id E h samples nt) = None)"
    using h by (auto simp: nativeDetect_cases returned_def split: option.splits)
  have s: "returned (nativeStartChunkedRealtimeTranscribeWithState E w h spc lang tr mt vad ac
            ss nc nt) \<noteq> None \<and>
         (returned (nativeStartChunkedRealtimeTranscribeWithState E w h spc lang tr mt vad ac
            ss nc nt) = Some False \<longleftrightarrow>
            h = 0 \<or> \<not> state_alloc_ok E h (length (states w)))"
    using h by (auto simp: nativeStart_cases returned_def)
  have f1: \<open>h \<noteq> 0 \<and> length bytes < 44 \<longrightarrow>
            returned (fullTranscribe E w h bytes languageStr tr mt sb sn) =
              Some ''{"error":"Invalid WAV"}''\<close>
    by (simp add: fullTranscribe_short returned_def)
  have f2: \<open>h \<noteq> 0 \<and> 44 \<le> length bytes \<and>
          points_to_string (language (fst (fullTranscribe_params E w languageStr tr mt sb sn))) \<and>
          full_status E h (fst (fullTranscribe_params E w languageStr tr mt sb sn))
            (wav_samples bytes) \<noteq> 0 \<longrightarrow>
            returned (fullTranscribe E w h bytes languageStr tr mt sb sn) =
              Some ''{"error":"Transformation failed"}''\<close>
  proof (intro impI)
    assume a: "h \<noteq> 0 \<and> 44 \<le> length bytes \<and>
          points_to_string (language (fst (fullTranscribe_params E w languageStr tr mt sb sn))) \<and>
          full_status E h (fst (fullTranscribe_params E w languageStr tr mt sb sn))
            (wav_samples bytes) \<noteq> 0"
    then have len: "44 \<le> length bytes"
      and p: "points_to_string
                (language (fst (fullTranscribe_params E w languageStr tr mt sb sn)))"
      by simp_all
    show \<open>returned (fullTranscribe E w h bytes languageStr tr mt sb sn) =
              Some ''{"error":"Transformation failed"}''\<close>
      using a by (simp add: fullTranscribe_live [OF h len p] Let_def returned_def)
  qed
  from t d s f1 f2 show ?thesis by simp
qed

theorem failure_values_witness:
  \<open>((1 :: jlong) = 0 \<or> 1 \<in> live_ctx sample_world) \<and>
   full_status failing_engine 1 (nativeTranscribe_params failing_engine None False 0) [] \<noteq> 0 \<and>
   returned (nativeTranscribe failing_engine sample_world 1 [] None False 0) = Some None \<and>
   returned (nativeDetectLanguageWithState failing_engine sample_world 1 [] 4) \<noteq> Some None \<and>
   returned (nativeStartChunkedRealtimeTranscribeWithState failing_engine sample_world 1 16000
     None False 0 False 512 True False 4) \<noteq> Some False \<and>
   (1 :: jlong) \<noteq> 0 \<and> length ([] :: jbyte list) < 44 \<and>
   returned (fullTranscribe failing_engine sample_world 1 [] ''auto'' False 0 False False) =
     Some ''{"error":"Invalid WAV"}'' \<and>
   44 \<le> length wav46 \<and>
   points_to_string
     (language (fst (fullTranscribe_params failing_engine sample_world ''auto'' False 0
        False False))) \<and>
   full_status failing_engine 1
     (fst (fullTranscribe_params failing_engine sample_world ''auto'' False 0 False False))
     (wav_samples wav46) \<noteq> 0 \<and>
   returned (fullTranscribe failing_engine sample_world 1 wav46 ''auto'' False 0 False False) =
     Some ''{"error":"Transformation failed"}''\<close>
proof -
  have live: "(1 :: jlong) = 0 \<or> 1 \<in> live_ctx sample_world"
    by (simp add: sample_world_def)
  have st: "full_status failing_engine ctx params samples = 1" for ctx params samples
    by (simp add: failing_engine_def)
  have e: "state_alloc_ok failing_engine ctx n" "pcm_to_mel_status failing_engine ctx samples = 0"
    "auto_detect_id failing_engine ctx samples k = 0" "lang_str_of failing_engine 0 = Some ''en''"
    for ctx n samples k
    by (simp_all add: failing_engine_def sample_engine_def)
  have len: "44 \<le> length wav46" by (simp add: wav46_def)
  have p: "points_to_string
     (language (fst (fullTranscribe_params failing_engine w ''auto'' False 0 False False)))"
    for w
    by (simp add: sample_engine_auto_language sample_default_language)
  show ?thesis
    using failure_values [OF live, where E = failing_engine and samples = "[]" and lang = None
        and tr = False and mt = 0 and nt = 4 and spc = 16000 and vad = False and ac = 512
        and ss = True and nc = False and bytes = "[]" and languageStr = "''auto''"
        and sb = False and sn = False]
      failure_values [OF live, where E = failing_engine and samples = "[]" and lang = None
        and tr = False and mt = 0 and nt = 4 and spc = 16000 and vad = False and ac = 512
        and ss = True and nc = False and bytes = wav46 and languageStr = "''auto''"
        and sb = False and sn = False]
    by (simp add: st e len p sample_world_def)
qed

subsection \<open>C5: what the decoding rejects\<close>

lemma wav47_samples: "wav_samples wav47 = [- 1]"
proof -
  have len: "length (wav_samples wav47) = 1"
    by (simp add: length_wav_samples wav47_def)
  have b: "wav47 ! 44 = 0" "wav47 ! 45 = 128"
    by (simp_all add: wav47_def nth_append)
  have "wav_samples wav47 ! 0 = pcm_sample wav47 0"
    by (rule nth_wav_samples) (simp add: wav47_def)
  also have "\<dots> = - 1"
    by (simp add: pcm_sample_le_int16 le_int16_def b)
  finally have "wav_samples wav47 ! 0 = - 1" .
  with len show ?thesis
    by (cases "wav_samples wav47") simp_all
qed

lemma header_only_samples: "wav_samples (replicate 44 0) = []"
  using length_wav_samples [of "replicate 44 0"] by simp

text \<open>
  C5, as stated, fails. A buffer of 47 bytes leaves an odd remainder of 3 bytes after the
  header: it is not rejected, its last byte is ignored, and the engine runs on the one
  sample. A buffer of 44 bytes gives no sample: it is not rejected either, and the
  engine runs on the empty sample array. Both calls return the transcript.
\<close>

theorem odd_and_empty_audio_counterexample:
  \<open>length wav47 - 44 = 3 \<and>
   calls_after (fullTranscribe sample_engine sample_world 1 wav47 ''auto'' False 0 False False) =
     [Whisper_full 1
        (sample_params\<lparr>print_progress := False, print_realtime := False,
           suppress_blank := False, suppress_nst := False\<rparr>) [- 1]] \<and>
   returned (fullTranscribe sample_engine sample_world 1 wav47 ''auto'' False 0 False False) =
     Some (''{"text": "Hello world", "segments": ['' @
           ''{"text": "Hello","t0": 0,"t1": 150},'' @
           ''{"text": "","t0": 150,"t1": 150},'' @
           ''{"text": " world","t0": 150,"t1": 300}]}'') \<and>
   calls_after (fullTranscribe sample_engine sample_world 1 (replicate 44 0) ''auto'' False 0
     False False) =
     [Whisper_full 1
        (sample_params\<lparr>print_progress := False, print_realtime := False,
           suppress_blank := False, suppress_nst := False\<rparr>) []] \<and>
   returned (fullTranscribe sample_engine sample_world 1 (replicate 44 0) ''auto'' False 0
     False False) =
     Some (''{"text": "Hello world", "segments": ['' @
           ''{"text": "Hello","t0": 0,"t1": 150},'' @
           ''{"text": "","t0": 150,"t1": 150},'' @
           ''{"text": " world","t0": 150,"t1": 300}]}'')\<close>
proof -
  have live: "(1 :: jlong) \<noteq> 0" "1 \<in> live_ctx sample_world"
    by (simp_all add: sample_world_def)
  have l47: "44 \<le> length wav47" and l44: "44 \<le> length (replicate 44 (0 :: jbyte))"
    by (simp_all add: wav47_def)
  have e: "full_status sample_engine ctx params samples = 0"
    "full_segments sample_engine ctx params samples = sample_segments" for ctx params samples
    by (simp_all add: sample_engine_def)
  have n: "show_int 0 = ''0''" "show_int 150 = ''150''" "show_int 300 = ''300''"
    by (simp_all add: show_int_def show_nat.simps)
  have c: "calls sample_world = []" by (simp add: sample_world_def)
  have p: "points_to_string
     (language (fst (fullTranscribe_params sample_engine sample_world ''auto'' False 0
        False False)))"
    by (simp add: sample_engine_auto_language sample_default_language)
  have "length wav47 - 44 = 3" by (simp add: wav47_def)
  moreover have
    "calls_after (fullTranscribe sample_engine sample_world 1 wav47 ''auto'' False 0 False False) =
     [Whisper_full 1
        (sample_params\<lparr>print_progress := False, print_realtime := False,
           suppress_blank := False, suppress_nst := False\<rparr>) [- 1]]"
    by (simp add: fullTranscribe_live [OF live l47 p] Let_def calls_after_def e c
        sample_engine_auto_params wav47_samples)
  moreover have
    \<open>returned (fullTranscribe sample_engine sample_world 1 wav47 ''auto'' False 0 False False) =
     Some (''{"text": "Hello world", "segments": ['' @
           ''{"text": "Hello","t0": 0,"t1": 150},'' @
           ''{"text": "","t0": 150,"t1": 150},'' @
           ''{"text": " world","t0": 150,"t1": 300}]}'')\<close>
    by (simp add: fullTranscribe_live [OF live l47 p] Let_def returned_def e n
        fullTranscribe_json_eq sample_segments_def segment_json_def)
  moreover have
    "calls_after (fullTranscribe sample_engine sample_world 1 (replicate 44 0) ''auto'' False 0
       False False) =
     [Whisper_full 1
        (sample_params\<lparr>print_progress := False, print_realtime := False,
           suppress_blank := False, suppress_nst := False\<rparr>) []]"
    by (simp add: fullTranscribe_live [OF live l44 p] Let_def calls_after_def e c
        sample_engine_auto_params header_only_samples)
  moreover have
    \<open>returned (fullTranscribe sample_engine sample_world 1 (replicate 44 0) ''auto'' False 0
       False False) =
     Some (''{"text": "Hello world", "segments": ['' @
           ''{"text": "Hello","t0": 0,"t1": 150},'' @
           ''{"text": "","t0": 150,"t1": 150},'' @
           ''{"text": " world","t0": 150,"t1": 300}]}'')\<close>
    by (simp add: fullTranscribe_live [OF live l44 p] Let_def returned_def e n
        fullTranscribe_json_eq sample_segments_def segment_json_def)
  ultimately show ?thesis by simp
qed

text \<open>
  C5, amended. On a non-null handle the decoding fails, with the error
  \<open>Invalid WAV\<close> and before any engine call, for every buffer shorter than 44 bytes, and
  for no other buffer: a buffer of 44 bytes or more on a live handle is decoded into
  \<open>(L - 44) div 2\<close> samples (an odd last byte is ignored, and there may be no sample at
  all) and what is returned is not that error; when the language pointer points to a
  string, the call returns and the engine has run on these samples.
\<close>

theorem wav_length_check:
  assumes "h \<noteq> 0"
  shows \<open>(length bytes < 44 \<longrightarrow>
            fullTranscribe E w h bytes languageStr tr mt sb sn =
              Inr (''{"error":"Invalid WAV"}'', w)) \<and>
         (44 \<le> length bytes \<and> h \<in> live_ctx w \<longrightarrow>
            length (wav_samples bytes) = (length bytes - 44) div 2 \<and>
            returned (fullTranscribe E w h bytes languageStr tr mt sb sn) \<noteq>
              Some ''{"error":"Invalid WAV"}'' \<and>
            (points_to_string
               (language (fst (fullTranscribe_params E w languageStr tr mt sb sn))) \<longrightarrow>
               returned (fullTranscribe E w h bytes languageStr tr mt sb sn) \<noteq> None \<and>
               last (calls_after (fullTranscribe E w h bytes languageStr tr mt sb sn)) =
                 Whisper_full h (fst (fullTranscribe_params E w languageStr tr mt sb sn))
                   (wav_samples bytes)))\<close>
proof (intro conjI impI)
  assume "length bytes < 44"
  with assms show \<open>fullTranscribe E w h bytes languageStr tr mt sb sn =
                    Inr (''{"error":"Invalid WAV"}'', w)\<close>
    by (rule fullTranscribe_short)
next
  assume a: "44 \<le> length bytes \<and> h \<in> live_ctx w"
  then have len: "44 \<le> length bytes" and live: "h \<in> live_ctx w" by simp_all
  show "length (wav_samples bytes) = (length bytes - 44) div 2"
    by (rule length_wav_samples)
  show \<open>returned (fullTranscribe E w h bytes languageStr tr mt sb sn) \<noteq>
          Some ''{"error":"Invalid WAV"}''\<close>
  proof (cases "points_to_string
      (language (fst (fullTranscribe_params E w languageStr tr mt sb sn)))")
    case True
    then show ?thesis
      by (simp add: fullTranscribe_live [OF assms live len True] Let_def returned_def
          fullTranscribe_json_eq)
  next
    case False
    then show ?thesis
      by (simp add: fullTranscribe_wild [OF assms live len False] returned_def)
  qed
  assume p: "points_to_string
      (language (fst (fullTranscribe_params E w languageStr tr mt sb sn)))"
  note eq = fullTranscribe_live [OF assms live len p]
  show "returned (fullTranscribe E w h bytes languageStr tr mt sb sn) \<noteq> None"
    by (simp add: eq Let_def returned_def)
  show "last (calls_after (fullTranscribe E w h bytes languageStr tr mt sb sn)) =
          Whisper_full h (fst (fullTranscribe_params E w languageStr tr mt sb sn))
            (wav_samples bytes)"
    by (simp add: eq Let_def calls_after_def)
qed

theorem wav_length_check_witness:
  \<open>(1 :: jlong) \<noteq> 0 \<and> length ([7, 7, 7] :: jbyte list) < 44 \<and>
   fullTranscribe sample_engine sample_world 1 [7, 7, 7] ''auto'' False 0 False False =
     Inr (''{"error":"Invalid WAV"}'', sample_world) \<and>
   44 \<le> length wav47 \<and> 1 \<in> live_ctx sample_world \<and>
   length (wav_samples wav47) = 1 \<and>
   points_to_string
     (language (fst (fullTranscribe_params sample_engine sample_world ''auto'' False 0
        False False))) \<and>
   returned (fullTranscribe sample_engine sample_world 1 wav47 ''auto'' False 0 False False)
     \<noteq> None \<and>
   last (calls_after (fullTranscribe sample_engine sample_world 1 wav47 ''auto'' False 0
     False False)) =
     Whisper_full 1
       (sample_params\<lparr>print_progress := False, print_realtime := False,
          suppress_blank := False, suppress_nst := False\<rparr>) [- 1]\<close>
proof -
  have h: "(1 :: jlong) \<noteq> 0" by simp
  have l47: "length wav47 = 47" by (simp add: wav47_def)
  have live: "1 \<in> live_ctx sample_world" by (simp add: sample_world_def)
  have p: "points_to_string
     (language (fst (fullTranscribe_params sample_engine sample_world ''auto'' False 0
        False False)))"
    by (simp add: sample_engine_auto_language sample_default_language)
  show ?thesis
    using wav_length_check [OF h, where E = sample_engine and w = sample_world
        and bytes = "[7, 7, 7]" and languageStr = "''auto''" and tr = False and mt = 0
        and sb = False and sn = False]
      wav_length_check [OF h, where E = sample_engine and w = sample_world
        and bytes = wav47 and languageStr = "''auto''" and tr = False and mt = 0
        and sb = False and sn = False]
      p
    by (simp add: l47 live sample_engine_auto_params wav47_samples)
qed

subsection \<open>C6: the language tag\<close>




subsection \<open>C8: the token cap\<close>

text \<open>
  C8, as stated, fails at the streaming start: the parameters it configures are a
  local variable that no engine call receives. With a \<open>maxTokens\<close> of 5 the call does
  what it does with a \<open>maxTokens\<close> of 0: it allocates a state and releases it, and no
  cap reaches the engine.
\<close>

theorem streaming_cap_counterexample:
  "nativeStartChunkedRealtimeTranscribeWithState sample_engine sample_world 1 16000 None
     False 5 False 512 True False 4 =
   nativeStartChunkedRealtimeTranscribeWithState sample_engine sample_world 1 16000 None
     False 0 False 512 True False 4 \<and>
   calls_after (nativeStartChunkedRealtimeTranscribeWithState sample_engine sample_world 1
     16000 None False 5 False 512 True False 4) =
     [Whisper_init_state 1, Whisper_state_free 0]"
  by (simp add: nativeStart_cases calls_after_def sample_engine_def sample_world_def)

text \<open>
  C8, amended. At the two single-shot call sites the parameters that the engine run
  receives carry the cap: with a \<open>maxTokens\<close> of 0 or less, the \<open>max_tokens\<close> of the
  engine's default parameters; with a positive \<open>maxTokens\<close>, that value. This is so
  for \<^verbatim>\<open>nativeTranscribe\<close> on a live handle, and for \<^verbatim>\<open>fullTranscribe\<close> on a live
  handle, 44 bytes or more and a language pointer that points to a string. The
  streaming start applies the same guard to its local parameter block, which no engine
  call receives: what it returns and the engine calls it makes do not depend on
  \<open>maxTokens\<close>.
\<close>

theorem max_tokens_cap:
  "(h \<noteq> 0 \<and> h \<in> live_ctx w \<longrightarrow>
      calls_after (nativeTranscribe E w h samples lang tr maxTokens) =
        calls w @ [Whisper_full h (nativeTranscribe_params E lang tr maxTokens) samples]) \<and>
   (h \<noteq> 0 \<and> h \<in> live_ctx w \<and> 44 \<le> length bytes \<and>
    points_to_string
      (language (fst (fullTranscribe_params E w languageStr tr maxTokens sb sn))) \<longrightarrow>
      last (calls_after (fullTranscribe E w h bytes languageStr tr maxTokens sb sn)) =
        Whisper_full h (fst (fullTranscribe_params E w languageStr tr maxTokens sb sn))
          (wav_samples bytes)) \<and>
   nativeStartChunkedRealtimeTranscribeWithState E w h spc lang tr maxTokens vad ac ss nc nt =
     nativeStartChunkedRealtimeTranscribeWithState E w h spc lang tr maxTokens' vad ac ss nc nt \<and>
   (maxTokens \<le> 0 \<longrightarrow>
      max_tokens (fst (fullTranscribe_params E w languageStr tr maxTokens sb sn)) =
        max_tokens (default_params E) \<and>
      max_tokens (nativeTranscribe_params E lang tr maxTokens) = max_tokens (default_params E) \<and>
      max_tokens (nativeStartChunkedRealtimeTranscribeWithState_params E lang tr maxTokens
        ac ss nc nt) = max_tokens (default_params E)) \<and>
   (0 < maxTokens \<longrightarrow>
      max_tokens (fst (fullTranscribe_params E w languageStr tr maxTokens sb sn)) = maxTokens \<and>
      max_tokens (nativeTranscribe_params E lang tr maxTokens) = maxTokens \<and>
      max_tokens (nativeStartChunkedRealtimeTranscribeWithState_params E lang tr maxTokens
        ac ss nc nt) = maxTokens)"
proof (intro conjI impI)
  assume "h \<noteq> 0 \<and> h \<in> live_ctx w"
  then have h: "h \<noteq> 0" "h \<in> live_ctx w" by simp_all
  show "calls_after (nativeTranscribe E w h samples lang tr maxTokens) =
          calls w @ [Whisper_full h (nativeTranscribe_params E lang tr maxTokens) samples]"
    by (simp add: nativeTranscribe_live [OF h] Let_def calls_after_def)
next
  assume a: "h \<noteq> 0 \<and> h \<in> live_ctx w \<and> 44 \<le> length bytes \<and>
    points_to_string
      (language (fst (fullTranscribe_params E w languageStr tr maxTokens sb sn)))"
  then have h: "h \<noteq> 0" "h \<in> live_ctx w" "44 \<le> length bytes"
    "points_to_string (language (fst (fullTranscribe_params E w languageStr tr maxTokens sb sn)))"
    by simp_all
  show "last (calls_after (fullTranscribe E w h bytes languageStr tr maxTokens sb sn)) =
          Whisper_full h (fst (fullTranscribe_params E w languageStr tr maxTokens sb sn))
            (wav_samples bytes)"
    by (simp add: fullTranscribe_live [OF h] Let_def calls_after_def)
next
  show "nativeStartChunkedRealtimeTranscribeWithState E w h spc lang tr maxTokens vad ac
          ss nc nt =
        nativeStartChunkedRealtimeTranscribeWithState E w h spc lang tr maxTokens' vad ac
          ss nc nt"
    by (simp add: nativeStart_cases)
next
  assume "maxTokens \<le> 0"
  then show
    "max_tokens (fst (fullTranscribe_params E w languageStr tr maxTokens sb sn)) =
       max_tokens (default_params E)"
    "max_tokens (nativeTranscribe_params E lang tr maxTokens) = max_tokens (default_params E)"
    "max_tokens (nativeStartChunkedRealtimeTranscribeWithState_params E lang tr maxTokens
       ac ss nc nt) = max_tokens (default_params E)"
    by (simp_all add: fullTranscribe_params_def nativeTranscribe_params_def
        nativeStartChunkedRealtimeTranscribeWithState_params_def whisper_lang_id_def Let_def
        split: option.splits)
next
  assume "0 < maxTokens"
  then show
    "max_tokens (fst (fullTranscribe_params E w languageStr tr maxTokens sb sn)) = maxTokens"
    "max_tokens (nativeTranscribe_params E lang tr maxTokens) = maxTokens"
    "max_tokens (nativeStartChunkedRealtimeTranscribeWithState_params E lang tr maxTokens
       ac ss nc nt) = maxTokens"
    by (simp_all add: fullTranscribe_params_def nativeTranscribe_params_def
        nativeStartChunkedRealtimeTranscribeWithState_params_def whisper_lang_id_def Let_def
        split: option.splits)
qed

theorem max_tokens_cap_witness:
  "(1 :: jlong) \<noteq> 0 \<and> 1 \<in> live_ctx sample_world \<and> 44 \<le> length wav46 \<and>
   points_to_string
     (language (fst (fullTranscribe_params sample_engine sample_world ''auto'' False 5
        False False))) \<and>
   calls_after (nativeTranscribe sample_engine sample_world 1 [] None False 5) =
     [Whisper_full 1 (nativeTranscribe_params sample_engine None False 5) []] \<and>
   last (calls_after (fullTranscribe sample_engine sample_world 1 wav46 ''auto'' False 5
     False False)) =
     Whisper_full 1
       (fst (fullTranscribe_params sample_engine sample_world ''auto'' False 5 False False))
       (wav_samples wav46) \<and>
   (0 :: int) < 5 \<and>
   max_tokens (fst (fullTranscribe_params sample_engine sample_world ''auto'' False 5
     False False)) = 5 \<and>
   max_tokens (nativeTranscribe_params sample_engine None False 5) = 5 \<and>
   max_tokens (nativeStartChunkedRealtimeTranscribeWithState_params sample_engine None False 5
     512 True False 4) = 5 \<and>
   (- 3 :: int) \<le> 0 \<and>
   max_tokens (fst (fullTranscribe_params sample_engine sample_world ''auto'' False (- 3)
     False False)) = 0 \<and>
   max_tokens (nativeTranscribe_params sample_engine None False (- 3)) = 0 \<and>
   max_tokens (nativeStartChunkedRealtimeTranscribeWithState_params sample_engine None False (- 3)
     512 True False 4) = 0"
proof -
  have d: "max_tokens (default_params sample_engine) = 0"
    by (simp add: sample_engine_def sample_params_def)
  have live: "(1 :: jlong) \<noteq> 0 \<and> 1 \<in> live_ctx sample_world"
    by (simp add: sample_world_def)
  have len: "44 \<le> length wav46" by (simp add: wav46_def)
  have c: "calls sample_world = []" by (simp add: sample_world_def)
  have p: "points_to_string
     (language (fst (fullTranscribe_params sample_engine w ''auto'' False mt False False)))"
    for w mt
    by (simp add: sample_engine_auto_language sample_default_language)
  show ?thesis
    using max_tokens_cap [where maxTokens = 5 and E = sample_engine and w = sample_world
        and h = 1 and samples = "[]" and bytes = wav46
        and languageStr = "''auto''" and tr = False and sb = False and sn = False
        and lang = None and ac = 512 and ss = True and nc = False and nt = 4]
      max_tokens_cap [where maxTokens = "- 3" and E = sample_engine and w = sample_world
        and h = 1 and samples = "[]" and bytes = wav46
        and languageStr = "''auto''" and tr = False and sb = False and sn = False
        and lang = None and ac = 512 and ss = True and nc = False and nt = 4]
      live
    by (simp add: d len c p)
qed

end
